theory Spec2Isabelle
  imports Complex_Main
begin

section \<open>Arrays and matrices\<close>

text \<open>
  A numpy array is its shape together with its entries in row-major order. Entries are
  modelled as real numbers. \<open>np.squeeze\<close> drops every axis of length one and
  \<open>a[np.newaxis]\<close> puts one axis of length one in front.
\<close>

datatype ndarray = NDArray (shape: "nat list") (flat: "real list")

definition ndim :: "ndarray \<Rightarrow> nat" where
  "ndim a = length (shape a)"

definition np_zeros :: "nat \<Rightarrow> ndarray" where
  "np_zeros n = NDArray [n] (replicate n 0)"

definition np_squeeze :: "ndarray \<Rightarrow> ndarray" where
  "np_squeeze a = NDArray (filter (\<lambda>k. k \<noteq> 1) (shape a)) (flat a)"

definition newaxis :: "ndarray \<Rightarrow> ndarray" where
  "newaxis a = NDArray (1 # shape a) (flat a)"

text \<open>
  A matrix is either a dense two-dimensional numpy array or a scipy sparse matrix, given
  by its numbers of rows and columns and its stored entries (row, column, value).
  \<open>issparse\<close> tells the two apart. The attribute \<open>size\<close> is the number of
  elements of a numpy array, but the number of stored entries of a sparse matrix.
\<close>

datatype matrix = Dense ndarray | Sparse nat nat "(nat \<times> nat \<times> real) list"

fun issparse :: "matrix \<Rightarrow> bool" where
  "issparse (Dense a) = False"
| "issparse (Sparse r c es) = True"

fun matrix_size :: "matrix \<Rightarrow> nat" where
  "matrix_size (Dense a) = prod_list (shape a)"
| "matrix_size (Sparse r c es) = length es"

fun matrix_shape :: "matrix \<Rightarrow> nat list" where
  "matrix_shape (Dense a) = shape a"
| "matrix_shape (Sparse r c es) = [r, c]"

text \<open>The entry at row \<open>i\<close> and column \<open>j\<close>; stored entries of a sparse matrix at the
  same position add up, positions without a stored entry are zero.\<close>

fun entry :: "matrix \<Rightarrow> nat \<Rightarrow> nat \<Rightarrow> real" where
  "entry (Dense a) i j = flat a ! (i * (shape a ! 1) + j)"
| "entry (Sparse r c es) i j =
     sum_list (map (\<lambda>(i', j', v). v) (filter (\<lambda>(i', j', v). i' = i \<and> j' = j) es))"

text \<open>A sparse matrix is well formed when every stored entry lies inside its shape.\<close>

fun wf_matrix :: "matrix \<Rightarrow> bool" where
  "wf_matrix (Dense a) = (length (shape a) = 2 \<and> length (flat a) = prod_list (shape a))"
| "wf_matrix (Sparse r c es) = list_all (\<lambda>(i, j, v). i < r \<and> j < c) es"

section \<open>Errors\<close>

text \<open>The exceptions of the code and the error conditions the specification names.\<close>

datatype error =
    AssertionError
  | KeyError
  | ValueError
  | IndexError
  | NotImplementedError
  | LinAlgError
  | SchemaConflict
  | ParameterValidationError
  | UnknownSubEntity
  | SolveNonConvergence
  | SolveFailure

section \<open>Parameters\<close>

type_synonym parameter_type = "(string \<times> nat list) list"
type_synonym parameter = "(string \<times> ndarray) list"

text \<open>
  Modelled from the spec: the class \<open>Parametric\<close> (module \<open>pymor.parameters\<close>) is not
  among the sources. Following section 4.1 of the specification, merging adds each new
  component, accepts an equal shape and fails with \<open>SchemaConflict\<close> on a different
  shape for a known name.
\<close>

fun merge :: "parameter_type \<Rightarrow> parameter_type \<Rightarrow> error + parameter_type" where
  "merge existing [] = Inr existing"
| "merge existing ((n, s) # additions) =
     (case map_of existing n of
        None \<Rightarrow> merge (existing @ [(n, s)]) additions
      | Some s' \<Rightarrow> if s' = s then merge existing additions else Inl SchemaConflict)"

text \<open>
  Modelled from the spec: \<open>build_parameter_type\<close> of the missing class \<open>Parametric\<close>.
  It merges the local requirements with the parameter type of every inherited
  sub-entity and records, for each sub-entity, the component names it owns.
\<close>

text \<open>
  Modelled from the spec: the merge of section 4.1 over all inherited sub-entities, in
  the order they are given; the first conflict ends it.
\<close>

fun merge_all :: "parameter_type \<Rightarrow> (string \<times> parameter_type) list \<Rightarrow> error + parameter_type" where
  "merge_all existing [] = Inr existing"
| "merge_all existing ((name, t) # inherits) =
     (case merge existing t of
        Inl e \<Rightarrow> Inl e
      | Inr existing' \<Rightarrow> merge_all existing' inherits)"

text \<open>
  Modelled from the spec: the result of \<open>build_parameter_type\<close> is the merged type and,
  for every sub-entity, the names of its components (no renaming).
\<close>

definition build_parameter_type ::
  "parameter_type \<Rightarrow> (string \<times> parameter_type) list
    \<Rightarrow> error + (parameter_type \<times> (string \<times> string list) list)" where
  "build_parameter_type local_requirements inherits =
     (case merge_all local_requirements inherits of
        Inl e \<Rightarrow> Inl e
      | Inr t \<Rightarrow> Inr (t, map (\<lambda>(name, t'). (name, map fst t')) inherits))"

text \<open>
  Numpy broadcasting of a shape to a declared shape: the shapes are aligned at their
  last axis, and every axis of the input is either equal to the declared one or one.
\<close>

text \<open>Modelled from the spec: "broadcastable to the declared shape" of section 4.2.\<close>

fun broadcastable_rev :: "nat list \<Rightarrow> nat list \<Rightarrow> bool" where
  "broadcastable_rev [] t = True"
| "broadcastable_rev (a # s) [] = False"
| "broadcastable_rev (a # s) (b # t) = ((a = b \<or> a = 1) \<and> broadcastable_rev s t)"

definition broadcastable :: "nat list \<Rightarrow> nat list \<Rightarrow> bool" where
  "broadcastable s t = broadcastable_rev (rev s) (rev t)"

fun chunks :: "nat \<Rightarrow> nat \<Rightarrow> 'a list \<Rightarrow> 'a list list" where
  "chunks 0 k xs = []"
| "chunks (Suc n) k xs = take k xs # chunks n k (drop k xs)"

text \<open>
  Modelled from the spec: the normalisation of a given array to the declared shape
  (section 3, ParameterValue), by repeating the entries along every broadcast axis.
\<close>

fun broadcast_flat :: "nat list \<Rightarrow> nat list \<Rightarrow> real list \<Rightarrow> real list" where
  "broadcast_flat (a # s) (b # t) xs =
     (if a = b then concat (map (broadcast_flat s t) (chunks a (prod_list s) xs))
      else concat (replicate b (broadcast_flat s t xs)))"
| "broadcast_flat s t xs = xs"

definition broadcast_to :: "ndarray \<Rightarrow> nat list \<Rightarrow> ndarray" where
  "broadcast_to a t =
     NDArray t (broadcast_flat (replicate (length t - ndim a) 1 @ shape a) t (flat a))"

text \<open>
  Modelled from the spec: \<open>parse_parameter\<close> of the missing class \<open>Parametric\<close>.
  Following section 4.2, parsing fails with \<open>ParameterValidationError\<close> when the raw
  mapping has a name the schema does not have, when a given array has a shape that is
  neither equal nor broadcastable to the declared one, and when a name of the schema is
  missing (no defaults are defined). A given array is normalised to the declared
  shape. An empty raw mapping parses to the empty value against the empty schema.
\<close>

fun parse_components :: "parameter_type \<Rightarrow> parameter \<Rightarrow> error + parameter" where
  "parse_components [] raw = Inr []"
| "parse_components ((n, s) # schema) raw =
     (case map_of raw n of
        None \<Rightarrow> Inl ParameterValidationError
      | Some a \<Rightarrow>
          if \<not> broadcastable (shape a) s then Inl ParameterValidationError
          else (case parse_components schema raw of
                  Inl e \<Rightarrow> Inl e
                | Inr mu \<Rightarrow> Inr ((n, broadcast_to a s) # mu)))"

text \<open>
  Modelled from the spec: \<open>parse_parameter\<close> first refuses unknown names, then parses
  the components of the schema.
\<close>

definition parse_parameter :: "parameter_type \<Rightarrow> parameter \<Rightarrow> error + parameter" where
  "parse_parameter schema raw =
     (if \<exists>n \<in> set (map fst raw). n \<notin> set (map fst schema)
      then Inl ParameterValidationError
      else parse_components schema raw)"

text \<open>
  Modelled from the spec: \<open>map_parameter\<close> of the missing class \<open>Parametric\<close>.
  Following section 4.3, the value is restricted to the components registered for the
  sub-entity; an unregistered sub-entity is \<open>UnknownSubEntity\<close>. The constructor of the
  discretization registers its sub-entities without renaming.
\<close>

definition map_parameter ::
  "(string \<times> string list) list \<Rightarrow> parameter \<Rightarrow> string \<Rightarrow> error + parameter" where
  "map_parameter parameter_maps mu name =
     (case map_of parameter_maps name of
        None \<Rightarrow> Inl UnknownSubEntity
      | Some names \<Rightarrow> Inr (filter (\<lambda>(n, a). n \<in> set names) mu))"

section \<open>Operators\<close>

text \<open>
  A linear discrete operator has its two dimensions, its own parameter type and its
  \<open>assemble\<close> method, which may raise.
\<close>

record linear_operator =
  dim_source :: nat
  dim_range :: nat
  op_parameter_type :: parameter_type
  assemble :: "parameter \<Rightarrow> error + matrix"

text \<open>
  Modelled from the spec: the method \<open>matrix\<close> of \<open>LinearDiscreteOperatorInterface\<close>
  (module \<open>pymor.discreteoperators.interfaces\<close>) is not among the sources. Following
  section 4.6, it parses the parameter against the operator's own type and returns the
  assembled matrix. Its cache returns what a fresh assembly returns, since assembly is
  a function of the operator and the parameter, so the cache of the operator is not
  part of the model.
\<close>

definition matrix :: "linear_operator \<Rightarrow> parameter \<Rightarrow> error + matrix" where
  "matrix op mu =
     (case parse_parameter (op_parameter_type op) mu of
        Inl e \<Rightarrow> Inl e
      | Inr mu' \<Rightarrow> assemble op mu')"

section \<open>The environment: numerical libraries and global defaults\<close>

text \<open>
  The solvers of scipy and numpy are not part of the program; they are parameters of the
  model. \<open>bicg\<close> returns its last iterate together with its convergence flag (zero on
  convergence, positive when the tolerance was not reached within the iteration cap,
  negative on breakdown). \<open>linalg_solve\<close> returns the solution or raises.
  \<open>squeeze_sparse\<close> is what \<open>np.squeeze\<close> makes of a sparse matrix. The
  tolerance and the iteration cap are the attributes of the global \<open>defaults\<close>,
  read when the default solver runs.
\<close>

record env =
  bicg :: "matrix \<Rightarrow> ndarray \<Rightarrow> real \<Rightarrow> nat \<Rightarrow> error + (ndarray \<times> int)"
  linalg_solve :: "matrix \<Rightarrow> ndarray \<Rightarrow> error + ndarray"
  squeeze_sparse :: "matrix \<Rightarrow> ndarray"
  bicg_tol :: real
  bicg_maxiter :: nat

text \<open>
  What a call of \<open>solve\<close> does besides returning: the matrices it requests from its
  operators, the message it logs, and the solver it runs on which system.
\<close>

datatype event =
    MatrixCall string parameter
  | LogInfo "string option" string parameter
  | BicgCall matrix ndarray real nat
  | LinalgSolveCall matrix ndarray
  | UserSolverCall matrix ndarray

type_synonym 'a outcome = "event list \<times> (error + 'a)"
type_synonym solver = "env \<Rightarrow> matrix \<Rightarrow> ndarray \<Rightarrow> ndarray outcome"

definition default_solver :: solver where
  "default_solver E A RHS =
     (if issparse A then
        ([BicgCall A RHS (bicg_tol E) (bicg_maxiter E)],
         (case bicg E A RHS (bicg_tol E) (bicg_maxiter E) of
            Inl e \<Rightarrow> Inl e
          | Inr (U, info) \<Rightarrow> Inr U))
      else
        ([LinalgSolveCall A RHS], linalg_solve E A RHS))"

text \<open>A solver function supplied by the caller, with its call recorded.\<close>

definition user_solver :: "(matrix \<Rightarrow> ndarray \<Rightarrow> error + ndarray) \<Rightarrow> solver" where
  "user_solver s E A RHS = ([UserSolverCall A RHS], s A RHS)"

section \<open>The cache\<close>

text \<open>
  Modelled from the spec: the class \<open>Cachable\<close> and the decorator \<open>cached\<close> (module
  \<open>pymor.core.cache\<close>) are not among the sources. Following section 4.5, the cache is
  a store of entries per namespace; initialising a cachable object gives it a
  namespace of its own with no entries; \<open>get_or_compute\<close> returns the stored value on
  a hit without running the computation, and on a miss runs it once, stores its value
  and returns it. A computation that raises stores nothing. The decorator wraps the
  whole method, so the key is the argument of the call.
\<close>

record cache_store =
  regions :: "nat \<Rightarrow> (parameter \<times> ndarray) list"
  next_namespace :: nat

text \<open>
  Modelled from the spec: \<open>Cachable.__init__\<close> gives the object the next unused
  namespace, with no entries ("a fresh namespace for its own future cache entries").
\<close>

definition Cachable_init :: "cache_store \<Rightarrow> nat \<times> cache_store" where
  "Cachable_init st =
     (next_namespace st,
      st\<lparr>regions := (regions st)(next_namespace st := []),
         next_namespace := Suc (next_namespace st)\<rparr>)"

text \<open>
  Modelled from the spec: \<open>get_or_compute(identity, call_key, compute_fn)\<close> of section
  4.5, which the decorator \<open>cached\<close> applies to the decorated method.
\<close>

definition get_or_compute ::
  "cache_store \<Rightarrow> nat \<Rightarrow> parameter \<Rightarrow> (unit \<Rightarrow> ndarray outcome)
    \<Rightarrow> ndarray outcome \<times> cache_store" where
  "get_or_compute st identity call_key compute_fn =
     (case map_of (regions st identity) call_key of
        Some v \<Rightarrow> (([], Inr v), st)
      | None \<Rightarrow>
          (case compute_fn () of
             (tr, Inl e) \<Rightarrow> ((tr, Inl e), st)
           | (tr, Inr v) \<Rightarrow>
               ((tr, Inr v),
                st\<lparr>regions := (regions st)(identity := (call_key, v) # regions st identity)\<rparr>)))"

section \<open>StationaryLinearDiscretization\<close>

record discretization =
  operators :: "string \<rightharpoonup> linear_operator"
  parameter_type :: parameter_type
  parameter_maps :: "(string \<times> string list) list"
  solver :: solver
  visualize :: "(ndarray \<Rightarrow> unit) option"
  solution_dim :: nat
  disc_name :: "string option"
  disable_logging :: bool
  namespace :: nat

text \<open>
  The constructor. The two \<open>isinstance\<close> assertions are the types of the arguments.
  The assertions on the dimensions come first; then the cache is initialised, the
  parameter type is built from the two operators, and the solver is the given one or,
  when none is given, the default solver.
\<close>

definition StationaryLinearDiscretization_init ::
  "linear_operator \<Rightarrow> linear_operator \<Rightarrow> (matrix \<Rightarrow> ndarray \<Rightarrow> error + ndarray) option
    \<Rightarrow> (ndarray \<Rightarrow> unit) option \<Rightarrow> string option \<Rightarrow> cache_store
    \<Rightarrow> error + (discretization \<times> cache_store)" where
  "StationaryLinearDiscretization_init operator rhs solver_arg visualizer name st =
     (if \<not> (dim_source operator = dim_range operator \<and> dim_range operator = dim_source rhs)
      then Inl AssertionError
      else if \<not> (dim_range rhs = 1) then Inl AssertionError
      else
        (case Cachable_init st of (ns, st') \<Rightarrow>
          (case build_parameter_type []
                  [(''operator'', op_parameter_type operator), (''rhs'', op_parameter_type rhs)] of
             Inl e \<Rightarrow> Inl e
           | Inr (t, maps) \<Rightarrow>
               Inr (\<lparr>operators = [''operator'' \<mapsto> operator, ''rhs'' \<mapsto> rhs],
                     parameter_type = t,
                     parameter_maps = maps,
                     solver = (case solver_arg of None \<Rightarrow> default_solver | Some s \<Rightarrow> user_solver s),
                     visualize = visualizer,
                     solution_dim = dim_range operator,
                     disc_name = name,
                     disable_logging = False,
                     namespace = ns\<rparr>, st'))))"

text \<open>
  \<open>copy\<close>: a shallow copy of the object whose dictionary of operators is copied and
  whose cache is initialised again.
\<close>

definition copy :: "discretization \<Rightarrow> cache_store \<Rightarrow> discretization \<times> cache_store" where
  "copy d st =
     (case Cachable_init st of (ns, st') \<Rightarrow>
        (d\<lparr>operators := operators d, namespace := ns\<rparr>, st'))"

text \<open>
  The body of \<open>solve\<close>, in the order of the code: parse the parameter, request the
  system matrix, log, return the empty vector for a matrix of size zero, request and
  squeeze the right-hand side, expand a zero-dimensional right-hand side to one axis,
  and run the solver.
\<close>

definition squeeze_matrix :: "env \<Rightarrow> matrix \<Rightarrow> ndarray" where
  "squeeze_matrix E M = (case M of Dense a \<Rightarrow> np_squeeze a | Sparse r c es \<Rightarrow> squeeze_sparse E M)"

definition lookup_operator :: "discretization \<Rightarrow> string \<Rightarrow> error + linear_operator" where
  "lookup_operator d name = (case operators d name of None \<Rightarrow> Inl KeyError | Some op \<Rightarrow> Inr op)"

definition prepared_rhs :: "env \<Rightarrow> matrix \<Rightarrow> ndarray" where
  "prepared_rhs E R =
     (let RHS = squeeze_matrix E R
      in if ndim RHS = 0 then newaxis RHS else RHS)"

definition solve_rhs :: "env \<Rightarrow> discretization \<Rightarrow> parameter \<Rightarrow> matrix \<Rightarrow> ndarray outcome" where
  "solve_rhs E d mu A =
     (case lookup_operator d ''rhs'' of
        Inl e \<Rightarrow> ([], Inl e)
      | Inr rhs \<Rightarrow>
     (case map_parameter (parameter_maps d) mu ''rhs'' of
        Inl e \<Rightarrow> ([], Inl e)
      | Inr mu_rhs \<Rightarrow>
     (case matrix rhs mu_rhs of
        Inl e \<Rightarrow> ([MatrixCall ''rhs'' mu_rhs], Inl e)
      | Inr R \<Rightarrow>
          (case solver d E A (prepared_rhs E R) of
             (tr, U) \<Rightarrow> (MatrixCall ''rhs'' mu_rhs # tr, U)))))"

definition logged :: "discretization \<Rightarrow> matrix \<Rightarrow> parameter \<Rightarrow> event list" where
  "logged d A mu =
     (if \<not> disable_logging d
      then [LogInfo (disc_name d) (if issparse A then ''sparse'' else ''dense'') mu]
      else [])"

definition solve_body :: "env \<Rightarrow> discretization \<Rightarrow> parameter \<Rightarrow> ndarray outcome" where
  "solve_body E d raw =
     (case parse_parameter (parameter_type d) raw of
        Inl e \<Rightarrow> ([], Inl e)
      | Inr mu \<Rightarrow>
     (case lookup_operator d ''operator'' of
        Inl e \<Rightarrow> ([], Inl e)
      | Inr operator \<Rightarrow>
     (case map_parameter (parameter_maps d) mu ''operator'' of
        Inl e \<Rightarrow> ([], Inl e)
      | Inr mu_op \<Rightarrow>
     (case matrix operator mu_op of
        Inl e \<Rightarrow> ([MatrixCall ''operator'' mu_op], Inl e)
      | Inr A \<Rightarrow>
          if matrix_size A = 0
          then (MatrixCall ''operator'' mu_op # logged d A mu, Inr (np_zeros 0))
          else (case solve_rhs E d mu A of
                  (tr, U) \<Rightarrow> (MatrixCall ''operator'' mu_op # logged d A mu @ tr, U))))))"

text \<open>\<open>solve\<close> is the body under the decorator \<open>cached\<close>.\<close>

definition solve ::
  "env \<Rightarrow> discretization \<Rightarrow> parameter \<Rightarrow> cache_store \<Rightarrow> ndarray outcome \<times> cache_store" where
  "solve E d mu st = get_or_compute st (namespace d) mu (\<lambda>_. solve_body E d mu)"

text \<open>Several calls of \<open>solve\<close> in a row, each on the store the one before left.\<close>

fun solve_many :: "env \<Rightarrow> discretization \<Rightarrow> parameter list \<Rightarrow> cache_store \<Rightarrow> cache_store" where
  "solve_many E d [] st = st"
| "solve_many E d (mu # mus) st = solve_many E d mus (snd (solve E d mu st))"

text \<open>The events that are runs of a solver.\<close>

fun is_solver_call :: "event \<Rightarrow> bool" where
  "is_solver_call (BicgCall A RHS tol maxiter) = True"
| "is_solver_call (LinalgSolveCall A RHS) = True"
| "is_solver_call (UserSolverCall A RHS) = True"
| "is_solver_call ev = False"

text \<open>
  The entries of the cache of a discretization are consistent when each of them holds
  what the body of \<open>solve\<close> returns for its key.
\<close>

definition cache_consistent :: "env \<Rightarrow> discretization \<Rightarrow> cache_store \<Rightarrow> bool" where
  "cache_consistent E d st =
     list_all (\<lambda>(k, v). snd (solve_body E d k) = Inr v) (regions st (namespace d))"

text \<open>A matrix has dimension zero when one of its axes has length zero.\<close>

fun zero_dim :: "matrix \<Rightarrow> bool" where
  "zero_dim (Dense a) = (0 \<in> set (shape a))"
| "zero_dim (Sparse r c es) = (r = 0 \<or> c = 0)"

section \<open>DiffusionOperatorP1\<close>

text \<open>
  What \<open>assemble\<close> reads from the grid and from the boundary information: the
  dimension, the number of vertices \<open>g.size(g.dim)\<close>, the vertices of every element
  \<open>g.subentities(0, g.dim)\<close>, whether there is a Dirichlet boundary, the Dirichlet mask
  of the vertices and the indices of the Dirichlet vertices.
\<close>

record grid =
  dim :: nat
  num_vertices :: nat
  subentities :: "nat list list"

record boundary_info =
  has_dirichlet :: bool
  dirichlet_mask :: "bool list"
  dirichlet_boundaries :: "nat list"

record diffusion_operator =
  op_grid :: grid
  op_boundary_info :: boundary_info
  dirichlet_clear_columns :: bool
  dirichlet_clear_diag :: bool

text \<open>
  \<open>np.repeat(S, k, axis=1).ravel()\<close> repeats every entry of a row \<open>k\<close> times, and
  \<open>np.tile(S, [1, k]).ravel()\<close> repeats every row \<open>k\<close> times.
\<close>

definition np_repeat_ravel :: "'a list list \<Rightarrow> nat \<Rightarrow> 'a list" where
  "np_repeat_ravel S k = concat (map (\<lambda>row. concat (map (replicate k) row)) S)"

definition np_tile_ravel :: "'a list list \<Rightarrow> nat \<Rightarrow> 'a list" where
  "np_tile_ravel S k = concat (map (\<lambda>row. concat (replicate k row)) S)"

text \<open>Indexing an array by an array of indices raises when an index is out of range.\<close>

definition take_indices :: "'a list \<Rightarrow> nat list \<Rightarrow> error + 'a list" where
  "take_indices xs idx =
     (if list_all (\<lambda>i. i < length xs) idx then Inr (map (\<lambda>i. xs ! i) idx) else Inl IndexError)"

text \<open>
  \<open>np.where(cond, x, ys)\<close> for a scalar \<open>x\<close> and one-dimensional \<open>cond\<close> and
  \<open>ys\<close>: an array of length one is broadcast to the length of the other; other
  lengths that differ raise.
\<close>

definition np_where :: "bool list \<Rightarrow> real \<Rightarrow> real list \<Rightarrow> error + real list" where
  "np_where cond x ys =
     (if length cond = length ys then Inr (map (\<lambda>(c, y). if c then x else y) (zip cond ys))
      else if length cond = 1 then Inr (map (\<lambda>y. if hd cond then x else y) ys)
      else if length ys = 1 then Inr (map (\<lambda>c. if c then x else hd ys) cond)
      else Inl ValueError)"

text \<open>
  \<open>coo_matrix((data, (row, col)), shape=(n, n))\<close> raises when the three arrays differ
  in length or an index is outside the shape. \<open>csr_matrix\<close> adds up the entries
  given for the same position.
\<close>

definition coo_matrix ::
  "real list \<Rightarrow> nat list \<Rightarrow> nat list \<Rightarrow> nat \<Rightarrow> error + (nat \<times> nat \<times> real) list" where
  "coo_matrix data row col n =
     (if length row \<noteq> length data \<or> length col \<noteq> length data then Inl ValueError
      else if \<not> list_all (\<lambda>i. i < n) row \<or> \<not> list_all (\<lambda>j. j < n) col then Inl ValueError
      else Inr (zip row (zip col data)))"

definition sum_at :: "(nat \<times> nat \<times> real) list \<Rightarrow> nat \<Rightarrow> nat \<Rightarrow> real" where
  "sum_at es i j = sum_list (map (\<lambda>(i', j', v). v) (filter (\<lambda>(i', j', v). i' = i \<and> j' = j) es))"

definition csr_matrix :: "nat \<Rightarrow> nat \<Rightarrow> (nat \<times> nat \<times> real) list \<Rightarrow> matrix" where
  "csr_matrix r c es =
     Sparse r c (map (\<lambda>(i, j). (i, j, sum_at es i j)) (remdups (map (\<lambda>(i, j, v). (i, j)) es)))"

text \<open>
  The boundary treatment of \<open>assemble\<close>, on the local integrals \<open>SF_INTS\<close> and the
  global indices \<open>SF_I0\<close> and \<open>SF_I1\<close>.
\<close>

definition boundary_treatment ::
  "diffusion_operator \<Rightarrow> real list \<Rightarrow> nat list \<Rightarrow> nat list
    \<Rightarrow> error + (real list \<times> nat list \<times> nat list)" where
  "boundary_treatment op SF_INTS SF_I0 SF_I1 =
     (let bi = op_boundary_info op in
      if has_dirichlet bi then
        (case take_indices (dirichlet_mask bi) SF_I0 of
           Inl e \<Rightarrow> Inl e
         | Inr m0 \<Rightarrow>
        (case np_where m0 0 SF_INTS of
           Inl e \<Rightarrow> Inl e
         | Inr ints1 \<Rightarrow>
        (case (if dirichlet_clear_columns op
               then (case take_indices (dirichlet_mask bi) SF_I1 of
                       Inl e \<Rightarrow> Inl e
                     | Inr m1 \<Rightarrow> np_where m1 0 ints1)
               else Inr ints1) of
           Inl e \<Rightarrow> Inl e
         | Inr ints2 \<Rightarrow>
             if \<not> dirichlet_clear_diag op
             then Inr (ints2 @ replicate (length (dirichlet_boundaries bi)) 1,
                       SF_I0 @ dirichlet_boundaries bi,
                       SF_I1 @ dirichlet_boundaries bi)
             else Inr (ints2, SF_I0, SF_I1))))
      else Inr (SF_INTS, SF_I0, SF_I1))"

text \<open>
  \<open>assemble\<close> from the local integrals on: the argument \<open>SF_INTS\<close> is the array of
  the scalar products of the gradients that the code has computed from the geometry of
  the grid and the diffusion before it determines the global indices. A grid of a
  dimension other than one and two raises.
\<close>

definition DiffusionOperatorP1_assemble :: "diffusion_operator \<Rightarrow> real list \<Rightarrow> error + matrix" where
  "DiffusionOperatorP1_assemble op SF_INTS =
     (let g = op_grid op in
      if dim g \<noteq> 2 \<and> dim g \<noteq> 1 then Inl NotImplementedError
      else
        (let SF_I0 = np_repeat_ravel (subentities g) (dim g + 1);
             SF_I1 = np_tile_ravel (subentities g) (dim g + 1)
         in (case boundary_treatment op SF_INTS SF_I0 SF_I1 of
               Inl e \<Rightarrow> Inl e
             | Inr (ints, i0, i1) \<Rightarrow>
                 (case coo_matrix ints i0 i1 (num_vertices g) of
                    Inl e \<Rightarrow> Inl e
                  | Inr es \<Rightarrow> Inr (csr_matrix (num_vertices g) (num_vertices g) es)))))"

text \<open>
  The mask and the list of the Dirichlet vertices describe the same vertices when the
  list has each vertex of the mask once.
\<close>

definition dirichlet_consistent :: "boundary_info \<Rightarrow> bool" where
  "dirichlet_consistent bi =
     (distinct (dirichlet_boundaries bi) \<and>
      set (dirichlet_boundaries bi)
        = set (filter (\<lambda>i. dirichlet_mask bi ! i) [0 ..< length (dirichlet_mask bi)]))"

section \<open>Concrete systems\<close>

text \<open>The empty cache, and an environment whose direct solver divides by the diagonal
  and whose iterative solver gives up at once and reports it.\<close>

definition empty_store :: cache_store where
  "empty_store = \<lparr>regions = (\<lambda>ns. []), next_namespace = 0\<rparr>"

definition diagonal_solve :: "matrix \<Rightarrow> ndarray \<Rightarrow> error + ndarray" where
  "diagonal_solve A b =
     (if list_all (\<lambda>i. entry A i i \<noteq> 0) [0 ..< length (flat b)]
      then Inr (NDArray (shape b) (map (\<lambda>i. flat b ! i / entry A i i) [0 ..< length (flat b)]))
      else Inl LinAlgError)"

definition stalling_env :: env where
  "stalling_env =
     \<lparr>bicg = (\<lambda>A b tol maxiter. Inr (NDArray (shape b) (replicate (length (flat b)) 0), int maxiter)),
      linalg_solve = diagonal_solve,
      squeeze_sparse = (\<lambda>M. NDArray [] []),
      bicg_tol = 1 / 10 ^ 12,
      bicg_maxiter = 1000\<rparr>"

definition diag123_operator :: linear_operator where
  "diag123_operator =
     \<lparr>dim_source = 3, dim_range = 3, op_parameter_type = [],
      assemble = (\<lambda>mu. Inr (Dense (NDArray [3, 3] [1, 0, 0, 0, 2, 0, 0, 0, 3])))\<rparr>"

definition sparse123_operator :: linear_operator where
  "sparse123_operator =
     \<lparr>dim_source = 3, dim_range = 3, op_parameter_type = [],
      assemble = (\<lambda>mu. Inr (Sparse 3 3 [(0, 0, 1), (1, 1, 2), (2, 2, 3)]))\<rparr>"

definition ones_functional :: linear_operator where
  "ones_functional =
     \<lparr>dim_source = 3, dim_range = 1, op_parameter_type = [],
      assemble = (\<lambda>mu. Inr (Dense (NDArray [1, 3] [1, 1, 1])))\<rparr>"

definition empty_operator :: linear_operator where
  "empty_operator =
     \<lparr>dim_source = 0, dim_range = 0, op_parameter_type = [],
      assemble = (\<lambda>mu. Inr (Dense (NDArray [0, 0] [])))\<rparr>"

definition empty_functional :: linear_operator where
  "empty_functional =
     \<lparr>dim_source = 0, dim_range = 1, op_parameter_type = [],
      assemble = (\<lambda>mu. Inr (Dense (NDArray [1, 0] [])))\<rparr>"

definition scalar_operator :: linear_operator where
  "scalar_operator =
     \<lparr>dim_source = 1, dim_range = 1, op_parameter_type = [],
      assemble = (\<lambda>mu. Inr (Dense (NDArray [1, 1] [2])))\<rparr>"

definition scalar_functional :: linear_operator where
  "scalar_functional =
     \<lparr>dim_source = 1, dim_range = 1, op_parameter_type = [],
      assemble = (\<lambda>mu. Inr (Dense (NDArray [1, 1] [1])))\<rparr>"

text \<open>
  The diffusion operator on the unit interval cut into two elements, with Dirichlet
  vertices at both ends, and the local integrals of this grid.
\<close>

definition interval_operator :: diffusion_operator where
  "interval_operator =
     \<lparr>op_grid = \<lparr>dim = 1, num_vertices = 3, subentities = [[0, 1], [1, 2]]\<rparr>,
      op_boundary_info =
        \<lparr>has_dirichlet = True, dirichlet_mask = [True, False, True],
         dirichlet_boundaries = [0, 2]\<rparr>,
      dirichlet_clear_columns = True,
      dirichlet_clear_diag = False\<rparr>"

definition interval_ints :: "real list" where
  "interval_ints = [2, - 2, - 2, 2, 2, - 2, - 2, 2]"

text \<open>A discretization constructed on the empty store, and the store the construction
  leaves.\<close>

definition constructed ::
  "linear_operator \<Rightarrow> linear_operator \<Rightarrow> (matrix \<Rightarrow> ndarray \<Rightarrow> error + ndarray) option
    \<Rightarrow> discretization" where
  "constructed operator rhs solver_arg =
     fst (projr (StationaryLinearDiscretization_init operator rhs solver_arg None None empty_store))"

definition fresh_store :: cache_store where
  "fresh_store = snd (Cachable_init empty_store)"

section \<open>Notions used in the statements\<close>

text \<open>The invariant of the dimensions, on the operators a discretization holds.\<close>

definition dimension_invariant :: "discretization \<Rightarrow> bool" where
  "dimension_invariant d =
     (case (operators d ''operator'', operators d ''rhs'') of
        (Some operator, Some rhs) \<Rightarrow>
          dim_source operator = dim_range operator \<and> dim_range operator = dim_source rhs
          \<and> dim_range rhs = 1
      | _ \<Rightarrow> False)"

text \<open>The requests of the matrix of the operator of a given name.\<close>

fun requests :: "string \<Rightarrow> event \<Rightarrow> bool" where
  "requests name (MatrixCall n mu) = (n = name)"
| "requests name ev = False"

text \<open>
  The product of a matrix and a vector, and what it means that a vector solves a linear
  system exactly.
\<close>

definition mat_vec :: "matrix \<Rightarrow> ndarray \<Rightarrow> real list" where
  "mat_vec A x =
     map (\<lambda>i. sum_list (map (\<lambda>j. entry A i j * flat x ! j) [0 ..< length (flat x)]))
       [0 ..< hd (matrix_shape A)]"

definition solves :: "matrix \<Rightarrow> ndarray \<Rightarrow> ndarray \<Rightarrow> bool" where
  "solves A x b = (shape x = shape b \<and> length (flat x) = length (flat b) \<and> mat_vec A x = flat b)"

section \<open>Facts about the constructor and the body of solve\<close>

lemma init_Inr:
  assumes "StationaryLinearDiscretization_init operator rhs solver_arg visualizer name st = Inr (d, st')"
  shows "dim_source operator = dim_range operator"
    and "dim_range operator = dim_source rhs"
    and "dim_range rhs = 1"
    and "operators d = [''operator'' \<mapsto> operator, ''rhs'' \<mapsto> rhs]"
    and "parameter_maps d = [(''operator'', map fst (op_parameter_type operator)),
                             (''rhs'', map fst (op_parameter_type rhs))]"
    and "solver d = (case solver_arg of None \<Rightarrow> default_solver | Some s \<Rightarrow> user_solver s)"
    and "namespace d = next_namespace st"
    and "st' = snd (Cachable_init st)"
    and "disable_logging d = False"
    and "disc_name d = name"
    and "build_parameter_type []
           [(''operator'', op_parameter_type operator), (''rhs'', op_parameter_type rhs)]
         = Inr (parameter_type d, parameter_maps d)"
  using assms
  by (auto simp: StationaryLinearDiscretization_init_def build_parameter_type_def Cachable_init_def
           split: if_splits sum.splits prod.splits)

lemma init_lookup:
  assumes "StationaryLinearDiscretization_init operator rhs solver_arg visualizer name st = Inr (d, st')"
  shows "lookup_operator d ''operator'' = Inr operator"
    and "lookup_operator d ''rhs'' = Inr rhs"
  using init_Inr(4)[OF assms] by (simp_all add: lookup_operator_def)

lemma init_map_parameter:
  assumes "StationaryLinearDiscretization_init operator rhs solver_arg visualizer name st = Inr (d, st')"
  shows "map_parameter (parameter_maps d) mu ''operator'' =
           Inr (filter (\<lambda>(n, a). n \<in> set (map fst (op_parameter_type operator))) mu)"
    and "map_parameter (parameter_maps d) mu ''rhs'' =
           Inr (filter (\<lambda>(n, a). n \<in> set (map fst (op_parameter_type rhs))) mu)"
  using init_Inr(5)[OF assms] by (simp_all add: map_parameter_def)

text \<open>A run of the body in which nothing raises before the solver is called.\<close>

lemma solve_body_run:
  assumes "parse_parameter (parameter_type d) raw = Inr mu"
    and "lookup_operator d ''operator'' = Inr operator"
    and "map_parameter (parameter_maps d) mu ''operator'' = Inr mu_op"
    and "matrix operator mu_op = Inr A"
    and "matrix_size A \<noteq> 0"
    and "lookup_operator d ''rhs'' = Inr rhs"
    and "map_parameter (parameter_maps d) mu ''rhs'' = Inr mu_rhs"
    and "matrix rhs mu_rhs = Inr R"
  shows "solve_body E d raw =
           (MatrixCall ''operator'' mu_op # logged d A mu @ MatrixCall ''rhs'' mu_rhs #
              fst (solver d E A (prepared_rhs E R)),
            snd (solver d E A (prepared_rhs E R)))"
  using assms by (simp add: solve_body_def solve_rhs_def split: prod.splits)

lemma solver_calls_logged [simp]: "filter is_solver_call (logged d A mu) = []"
  by (simp add: logged_def)

text \<open>Constructing on the empty store, for operators without parameters.\<close>

lemma constructed_facts:
  assumes "dim_source operator = dim_range operator" "dim_range operator = dim_source rhs"
    "dim_range rhs = 1" "op_parameter_type operator = []" "op_parameter_type rhs = []"
  shows "StationaryLinearDiscretization_init operator rhs solver_arg None None empty_store
           = Inr (constructed operator rhs solver_arg, fresh_store)"
    and "parse_parameter (parameter_type (constructed operator rhs solver_arg)) [] = Inr []"
    and "map_parameter (parameter_maps (constructed operator rhs solver_arg)) [] ''operator'' = Inr []"
    and "map_parameter (parameter_maps (constructed operator rhs solver_arg)) [] ''rhs'' = Inr []"
    and "namespace (constructed operator rhs solver_arg) = 0"
proof -
  show i: "StationaryLinearDiscretization_init operator rhs solver_arg None None empty_store
             = Inr (constructed operator rhs solver_arg, fresh_store)"
    using assms
    by (simp add: constructed_def fresh_store_def StationaryLinearDiscretization_init_def
        Cachable_init_def build_parameter_type_def split: prod.splits)
  have "parameter_type (constructed operator rhs solver_arg) = []"
    using init_Inr(11)[OF i] assms(4,5) by (simp add: build_parameter_type_def)
  then show "parse_parameter (parameter_type (constructed operator rhs solver_arg)) [] = Inr []"
    by (simp add: parse_parameter_def)
  show "map_parameter (parameter_maps (constructed operator rhs solver_arg)) [] ''operator'' = Inr []"
    by (simp add: init_map_parameter(1)[OF i])
  show "map_parameter (parameter_maps (constructed operator rhs solver_arg)) [] ''rhs'' = Inr []"
    by (simp add: init_map_parameter(2)[OF i])
  show "namespace (constructed operator rhs solver_arg) = 0"
    using init_Inr(7)[OF i] by (simp add: empty_store_def)
qed

lemma matrix_no_parameters: "op_parameter_type op = [] \<Longrightarrow> matrix op [] = assemble op []"
  by (simp add: matrix_def parse_parameter_def)

text \<open>Squeezing a dense row of \<open>n\<close> entries, and expanding it again when \<open>n\<close> is one.\<close>

lemma prepared_rhs_row [simp]:
  "prepared_rhs E (Dense (NDArray [Suc 0, n] xs)) = NDArray [n] xs"
  by (simp add: prepared_rhs_def squeeze_matrix_def np_squeeze_def ndim_def newaxis_def)

section \<open>The dispatch of the solver\<close>

text \<open>
  C1: In a discretization constructed without a solver, a run of \<open>solve\<close> that reaches
  the solver runs exactly one solver, chosen by the storage class of the assembled
  system matrix: \<open>bicg\<close> with the tolerance and the iteration cap of the defaults on a
  sparse matrix, \<open>numpy.linalg.solve\<close> on a dense one. A solver given to the
  constructor is the one that runs, whatever the matrix and the parameter, and the
  result of \<open>solve\<close> is the result of that solver.
\<close>

theorem solve_dispatch:
  assumes "StationaryLinearDiscretization_init operator rhs solver_arg visualizer name st = Inr (d, st')"
    and "parse_parameter (parameter_type d) raw = Inr mu"
    and "map_parameter (parameter_maps d) mu ''operator'' = Inr mu_op"
    and "matrix operator mu_op = Inr A"
    and "matrix_size A \<noteq> 0"
    and "map_parameter (parameter_maps d) mu ''rhs'' = Inr mu_rhs"
    and "matrix rhs mu_rhs = Inr R"
  shows "filter is_solver_call (fst (solve_body E d raw)) =
           [case solver_arg of
              None \<Rightarrow> if issparse A
                      then BicgCall A (prepared_rhs E R) (bicg_tol E) (bicg_maxiter E)
                      else LinalgSolveCall A (prepared_rhs E R)
            | Some s \<Rightarrow> UserSolverCall A (prepared_rhs E R)]
       \<and> snd (solve_body E d raw) =
           (case solver_arg of
              None \<Rightarrow> if issparse A
                      then (case bicg E A (prepared_rhs E R) (bicg_tol E) (bicg_maxiter E) of
                              Inl e \<Rightarrow> Inl e
                            | Inr (U, info) \<Rightarrow> Inr U)
                      else linalg_solve E A (prepared_rhs E R)
            | Some s \<Rightarrow> s A (prepared_rhs E R))"
proof -
  note run = solve_body_run[OF assms(2) init_lookup(1)[OF assms(1)] assms(3,4,5)
      init_lookup(2)[OF assms(1)] assms(6,7), of E]
  have sol: "solver d = (case solver_arg of None \<Rightarrow> default_solver | Some s \<Rightarrow> user_solver s)"
    by (rule init_Inr(6)[OF assms(1)])
  show ?thesis
    by (cases solver_arg) (simp_all add: run sol default_solver_def user_solver_def)
qed

text \<open>The three cases at the system with the matrix \<open>diag(1, 2, 3)\<close>: sparse, dense, and
  dense with a solver of the caller.\<close>

theorem solve_dispatch_witness:
  "filter is_solver_call
     (fst (solve_body stalling_env (constructed sparse123_operator ones_functional None) []))
     = [BicgCall (Sparse 3 3 [(0, 0, 1), (1, 1, 2), (2, 2, 3)]) (NDArray [3] [1, 1, 1]) (1 / 10 ^ 12) 1000]
   \<and> filter is_solver_call
     (fst (solve_body stalling_env (constructed diag123_operator ones_functional None) []))
     = [LinalgSolveCall (Dense (NDArray [3, 3] [1, 0, 0, 0, 2, 0, 0, 0, 3])) (NDArray [3] [1, 1, 1])]
   \<and> filter is_solver_call
     (fst (solve_body stalling_env
        (constructed diag123_operator ones_functional (Some (\<lambda>A b. Inr b))) []))
     = [UserSolverCall (Dense (NDArray [3, 3] [1, 0, 0, 0, 2, 0, 0, 0, 3])) (NDArray [3] [1, 1, 1])]
   \<and> snd (solve_body stalling_env
        (constructed diag123_operator ones_functional (Some (\<lambda>A b. Inr b))) [])
     = Inr (NDArray [3] [1, 1, 1])"
proof -
  note sp = constructed_facts[of sparse123_operator ones_functional, where solver_arg = None]
  note de = constructed_facts[of diag123_operator ones_functional, where solver_arg = None]
  note us = constructed_facts[of diag123_operator ones_functional,
      where solver_arg = "Some (\<lambda>A b. Inr b)"]
  have a: "matrix sparse123_operator [] = Inr (Sparse 3 3 [(0, 0, 1), (1, 1, 2), (2, 2, 3)])"
    by (simp add: matrix_no_parameters sparse123_operator_def)
  have b: "matrix diag123_operator [] = Inr (Dense (NDArray [3, 3] [1, 0, 0, 0, 2, 0, 0, 0, 3]))"
    by (simp add: matrix_no_parameters diag123_operator_def)
  have r: "matrix ones_functional [] = Inr (Dense (NDArray [1, 3] [1, 1, 1]))"
    by (simp add: matrix_no_parameters ones_functional_def)
  have "filter is_solver_call
     (fst (solve_body stalling_env (constructed sparse123_operator ones_functional None) []))
     = [BicgCall (Sparse 3 3 [(0, 0, 1), (1, 1, 2), (2, 2, 3)]) (NDArray [3] [1, 1, 1]) (1 / 10 ^ 12) 1000]"
    using solve_dispatch[OF sp(1) sp(2) sp(3) a _ sp(4) r, of stalling_env]
    by (simp add: sparse123_operator_def ones_functional_def stalling_env_def)
  moreover have "filter is_solver_call
     (fst (solve_body stalling_env (constructed diag123_operator ones_functional None) []))
     = [LinalgSolveCall (Dense (NDArray [3, 3] [1, 0, 0, 0, 2, 0, 0, 0, 3])) (NDArray [3] [1, 1, 1])]"
    using solve_dispatch[OF de(1) de(2) de(3) b _ de(4) r, of stalling_env]
    by (simp add: diag123_operator_def ones_functional_def)
  moreover have "filter is_solver_call
     (fst (solve_body stalling_env
        (constructed diag123_operator ones_functional (Some (\<lambda>A b. Inr b))) []))
     = [UserSolverCall (Dense (NDArray [3, 3] [1, 0, 0, 0, 2, 0, 0, 0, 3])) (NDArray [3] [1, 1, 1])]
   \<and> snd (solve_body stalling_env
        (constructed diag123_operator ones_functional (Some (\<lambda>A b. Inr b))) [])
     = Inr (NDArray [3] [1, 1, 1])"
    using solve_dispatch[OF us(1) us(2) us(3) b _ us(4) r, of stalling_env]
    by (simp add: diag123_operator_def ones_functional_def)
  ultimately show ?thesis by simp
qed

section \<open>Facts about the cache\<close>

lemma solve_hit:
  "map_of (regions st (namespace d)) mu = Some v \<Longrightarrow> solve E d mu st = (([], Inr v), st)"
  by (simp add: solve_def get_or_compute_def)

lemma solve_miss_error:
  "map_of (regions st (namespace d)) mu = None \<Longrightarrow> solve_body E d mu = (tr, Inl e)
     \<Longrightarrow> solve E d mu st = ((tr, Inl e), st)"
  by (simp add: solve_def get_or_compute_def)

lemma solve_miss_value:
  "map_of (regions st (namespace d)) mu = None \<Longrightarrow> solve_body E d mu = (tr, Inr v)
     \<Longrightarrow> solve E d mu st =
           ((tr, Inr v),
            st\<lparr>regions := (regions st)(namespace d := (mu, v) # regions st (namespace d))\<rparr>)"
  by (simp add: solve_def get_or_compute_def)

lemma solve_cases:
  obtains (hit) v where "map_of (regions st (namespace d)) mu = Some v"
      "solve E d mu st = (([], Inr v), st)"
  | (error) tr e where "map_of (regions st (namespace d)) mu = None"
      "solve_body E d mu = (tr, Inl e)" "solve E d mu st = ((tr, Inl e), st)"
  | (computed) tr v where "map_of (regions st (namespace d)) mu = None"
      "solve_body E d mu = (tr, Inr v)"
      "solve E d mu st =
         ((tr, Inr v),
          st\<lparr>regions := (regions st)(namespace d := (mu, v) # regions st (namespace d))\<rparr>)"
proof (cases "map_of (regions st (namespace d)) mu")
  case None
  obtain tr r where b: "solve_body E d mu = (tr, r)" by (cases "solve_body E d mu")
  show ?thesis
  proof (cases r)
    case (Inl e)
    with None b error solve_miss_error show ?thesis by blast
  next
    case (Inr v)
    with None b computed solve_miss_value show ?thesis by blast
  qed
next
  case (Some v)
  with hit solve_hit show ?thesis by blast
qed

lemma solve_stored:
  assumes "solve E d mu st = ((tr, Inr v), st')"
  shows "map_of (regions st' (namespace d)) mu = Some v"
  using assms by (cases rule: solve_cases[of st d mu E]) auto

lemma solve_frame:
  "ns \<noteq> namespace d \<Longrightarrow> regions (snd (solve E d mu st)) ns = regions st ns"
  by (cases rule: solve_cases[of st d mu E]) auto

lemma solve_next_namespace:
  "next_namespace (snd (solve E d mu st)) = next_namespace st"
  by (cases rule: solve_cases[of st d mu E]) auto

lemma solve_many_frame:
  "ns \<noteq> namespace d \<Longrightarrow> regions (solve_many E d mus st) ns = regions st ns"
  by (induction mus arbitrary: st) (simp_all add: solve_frame)

lemma solve_local:
  "regions st (namespace d) = regions st' (namespace d)
     \<Longrightarrow> fst (solve E d mu st) = fst (solve E d mu st')"
  by (simp add: solve_def get_or_compute_def split: option.splits prod.splits sum.splits)

lemma cache_consistent_lookup:
  "cache_consistent E d st \<Longrightarrow> map_of (regions st (namespace d)) mu = Some v
     \<Longrightarrow> snd (solve_body E d mu) = Inr v"
  by (auto simp: cache_consistent_def list_all_iff dest: map_of_SomeD)

lemma cache_consistent_solve:
  assumes "cache_consistent E d st"
  shows "cache_consistent E d (snd (solve E d mu st))"
  using assms by (cases rule: solve_cases[of st d mu E]) (auto simp: cache_consistent_def)

lemma cache_consistent_fresh:
  "regions st (namespace d) = [] \<Longrightarrow> cache_consistent E d st"
  by (simp add: cache_consistent_def)

text \<open>The cache of a discretization is consistent after its construction and after its
  copy, and calls of \<open>solve\<close> on other objects keep it so.\<close>

lemma cache_consistent_init:
  assumes "StationaryLinearDiscretization_init operator rhs solver_arg visualizer name st = Inr (d, st')"
  shows "cache_consistent E d st'"
  using init_Inr(7,8)[OF assms]
  by (intro cache_consistent_fresh) (simp add: Cachable_init_def)

lemma cache_consistent_copy:
  assumes "copy d st = (c, st1)"
  shows "cache_consistent E c st1"
  using assms
  by (intro cache_consistent_fresh) (auto simp: copy_def Cachable_init_def)

lemma cache_consistent_other:
  assumes "cache_consistent E d st" "namespace d' \<noteq> namespace d"
  shows "cache_consistent E d (snd (solve E d' mu st))"
  using assms solve_frame[of "namespace d" d' E mu st]
  by (simp add: cache_consistent_def)

text \<open>With a consistent cache a call returns what the body returns.\<close>

lemma solve_result:
  assumes "cache_consistent E d st"
  shows "snd (fst (solve E d mu st)) = snd (solve_body E d mu)"
  using assms
  by (cases rule: solve_cases[of st d mu E]) (auto dest: cache_consistent_lookup)

lemma solve_trace:
  "fst (fst (solve E d mu st)) = [] \<or> fst (fst (solve E d mu st)) = fst (solve_body E d mu)"
  by (cases rule: solve_cases[of st d mu E]) auto

lemma parse_components_error:
  "parse_components schema raw = Inl e \<Longrightarrow> e = ParameterValidationError"
  by (induction schema arbitrary: e) (auto split: option.splits if_splits sum.splits)

lemma parse_parameter_error:
  "parse_parameter schema raw = Inl e \<Longrightarrow> e = ParameterValidationError"
  by (auto simp: parse_parameter_def split: if_splits dest: parse_components_error)

lemma parse_components_fails:
  "(\<exists>e. parse_components schema raw = Inl e) \<longleftrightarrow>
   (\<exists>(n, s) \<in> set schema. case map_of raw n of None \<Rightarrow> True | Some a \<Rightarrow> \<not> broadcastable (shape a) s)"
  by (induction schema) (auto split: option.splits sum.splits)

section \<open>Facts about the runs of the body\<close>

lemma constructed_solver_trace:
  assumes "solver d = default_solver \<or> (\<exists>s. solver d = user_solver s)"
  shows "\<exists>ev. fst (solver d E A RHS) = [ev] \<and> is_solver_call ev \<and> (\<forall>n. \<not> requests n ev)"
  using assms by (auto simp: default_solver_def user_solver_def)

lemma logged_no_requests [simp]: "filter (requests n) (logged d A mu) = []"
  by (simp add: logged_def)

lemma solve_body_counts:
  assumes "solver d = default_solver \<or> (\<exists>s. solver d = user_solver s)"
    and "solve_body E d raw = (tr, Inr v)"
  shows "length (filter (requests ''operator'') tr) = 1"
    and "length (filter (requests ''rhs'') tr) = length (filter is_solver_call tr)"
    and "length (filter is_solver_call tr) \<le> 1"
proof -
  obtain mu operator mu_op A where
    p: "parse_parameter (parameter_type d) raw = Inr mu"
    and l: "lookup_operator d ''operator'' = Inr operator"
    and m: "map_parameter (parameter_maps d) mu ''operator'' = Inr mu_op"
    and a: "matrix operator mu_op = Inr A"
    using assms(2) by (auto simp: solve_body_def split: sum.splits)
  show "length (filter (requests ''operator'') tr) = 1"
    and "length (filter (requests ''rhs'') tr) = length (filter is_solver_call tr)"
    and "length (filter is_solver_call tr) \<le> 1"
  proof (atomize(full), cases "matrix_size A = 0")
    case True
    with assms(2) p l m a show "length (filter (requests ''operator'') tr) = 1 \<and>
    length (filter (requests ''rhs'') tr) = length (filter is_solver_call tr) \<and>
    length (filter is_solver_call tr) \<le> 1"
      by (auto simp: solve_body_def)
  next
    case False
    obtain rhs mu_rhs R where
      l2: "lookup_operator d ''rhs'' = Inr rhs"
      and m2: "map_parameter (parameter_maps d) mu ''rhs'' = Inr mu_rhs"
      and r: "matrix rhs mu_rhs = Inr R"
      using assms(2) p l m a False
      by (auto simp: solve_body_def solve_rhs_def split: sum.splits prod.splits)
    obtain ev where ev: "fst (solver d E A (prepared_rhs E R)) = [ev]" "is_solver_call ev"
      "\<forall>n. \<not> requests n ev"
      using constructed_solver_trace[OF assms(1)] by blast
    have "tr = MatrixCall ''operator'' mu_op # logged d A mu @ MatrixCall ''rhs'' mu_rhs # [ev]"
      using solve_body_run[OF p l m a False l2 m2 r, of E] assms(2) ev(1) by simp
    with ev show "length (filter (requests ''operator'') tr) = 1 \<and>
    length (filter (requests ''rhs'') tr) = length (filter is_solver_call tr) \<and>
    length (filter is_solver_call tr) \<le> 1"
      by simp
  qed
qed

lemma zero_dim_size: "wf_matrix A \<Longrightarrow> zero_dim A \<Longrightarrow> matrix_size A = 0"
proof (cases A)
  case (Dense a)
  assume "zero_dim A"
  with Dense show ?thesis by (simp add: prod_list_zero_iff)
next
  case (Sparse r c es)
  assume "wf_matrix A" "zero_dim A"
  with Sparse show ?thesis by (cases es) auto
qed

lemma solve_body_zero:
  assumes "parse_parameter (parameter_type d) raw = Inr mu"
    and "lookup_operator d ''operator'' = Inr operator"
    and "map_parameter (parameter_maps d) mu ''operator'' = Inr mu_op"
    and "matrix operator mu_op = Inr A"
    and "matrix_size A = 0"
  shows "solve_body E d raw = (MatrixCall ''operator'' mu_op # logged d A mu, Inr (np_zeros 0))"
  using assms by (simp add: solve_body_def)

lemma lookup_operator_namespace [simp]:
  "lookup_operator (d\<lparr>namespace := ns\<rparr>) n = lookup_operator d n"
  by (simp add: lookup_operator_def)

lemma logged_namespace [simp]: "logged (d\<lparr>namespace := ns\<rparr>) A mu = logged d A mu"
  by (simp add: logged_def)

lemma solve_rhs_namespace [simp]:
  "solve_rhs E (d\<lparr>namespace := ns\<rparr>) mu A = solve_rhs E d mu A"
  by (simp add: solve_rhs_def split: sum.splits prod.splits)

lemma solve_body_namespace:
  "solve_body E (d\<lparr>namespace := ns\<rparr>) raw = solve_body E d raw"
  by (simp add: solve_body_def split: sum.splits prod.splits)

lemma copy_fields:
  assumes "copy d st = (c, st1)"
  shows "c = d\<lparr>operators := operators d, namespace := next_namespace st\<rparr>"
    and "st1 = st\<lparr>regions := (regions st)(next_namespace st := []),
                  next_namespace := Suc (next_namespace st)\<rparr>"
  using assms by (auto simp: copy_def Cachable_init_def)

lemma solves_diag123:
  assumes "solves (Dense (NDArray [3, 3] [1, 0, 0, 0, 2, 0, 0, 0, 3])) x (NDArray [3] [1, 1, 1])"
  shows "x = NDArray [3] [1, 1 / 2, 1 / 3]"
proof -
  obtain s xs where x: "x = NDArray s xs" by (cases x)
  from assms x have s: "s = [3]" and l: "length xs = 3"
    by (simp_all add: solves_def)
  from l obtain a b c where xs: "xs = [a, b, c]"
    by (auto simp: length_Suc_conv eval_nat_numeral)
  have u: "[0 ..< 3] = [0, 1, 2]"
    by (simp add: upt_rec)
  from assms have "a = 1 \<and> b = 1 / 2 \<and> c = 1 / 3"
    by (auto simp add: solves_def x xs mat_vec_def u)
  with x s xs show ?thesis by simp
qed

section \<open>Facts about the concrete systems\<close>

lemma upt3: "[0 ..< 3] = [0, 1, 2]"
  by (simp add: upt_rec)

lemma diagonal_solve_diag123:
  "diagonal_solve (Dense (NDArray [3, 3] [1, 0, 0, 0, 2, 0, 0, 0, 3])) (NDArray [3] [1, 1, 1])
     = Inr (NDArray [3] [1, 1 / 2, 1 / 3])"
  by (simp add: diagonal_solve_def upt3)

lemma solves_diagonal:
  "solves (Dense (NDArray [3, 3] [1, 0, 0, 0, 2, 0, 0, 0, 3])) (NDArray [3] [1, 1 / 2, 1 / 3])
     (NDArray [3] [1, 1, 1])"
  by (simp add: solves_def mat_vec_def upt3)

lemma diag123_facts:
  "dim_source diag123_operator = dim_range diag123_operator"
  "dim_range diag123_operator = dim_source ones_functional"
  "dim_range ones_functional = 1"
  "op_parameter_type diag123_operator = []"
  "op_parameter_type ones_functional = []"
  "assemble diag123_operator [] = Inr (Dense (NDArray [3, 3] [1, 0, 0, 0, 2, 0, 0, 0, 3]))"
  "assemble ones_functional [] = Inr (Dense (NDArray [1, 3] [1, 1, 1]))"
  by (simp_all add: diag123_operator_def ones_functional_def)

lemma fresh_store_fields:
  "regions fresh_store ns = []" "next_namespace fresh_store = 1"
  by (simp_all add: fresh_store_def Cachable_init_def empty_store_def)

lemma sparse123_facts:
  "dim_source sparse123_operator = dim_range sparse123_operator"
  "dim_range sparse123_operator = dim_source ones_functional"
  "op_parameter_type sparse123_operator = []"
  "assemble sparse123_operator [] = Inr (Sparse 3 3 [(0, 0, 1), (1, 1, 2), (2, 2, 3)])"
  by (simp_all add: sparse123_operator_def ones_functional_def)

lemma empty_facts:
  "dim_source empty_operator = dim_range empty_operator"
  "dim_range empty_operator = dim_source empty_functional"
  "dim_range empty_functional = 1"
  "op_parameter_type empty_operator = []"
  "op_parameter_type empty_functional = []"
  "assemble empty_operator [] = Inr (Dense (NDArray [0, 0] []))"
  by (simp_all add: empty_operator_def empty_functional_def)

lemma scalar_facts:
  "dim_source scalar_operator = dim_range scalar_operator"
  "dim_range scalar_operator = dim_source scalar_functional"
  "dim_range scalar_functional = 1"
  "op_parameter_type scalar_operator = []"
  "op_parameter_type scalar_functional = []"
  "assemble scalar_operator [] = Inr (Dense (NDArray [1, 1] [2]))"
  "assemble scalar_functional [] = Inr (Dense (NDArray [1, 1] [1]))"
  by (simp_all add: scalar_operator_def scalar_functional_def)

lemma diag123_body:
  "solve_body stalling_env (constructed diag123_operator ones_functional None) [] =
     ([MatrixCall ''operator'' [], LogInfo None ''dense'' [], MatrixCall ''rhs'' [],
       LinalgSolveCall (Dense (NDArray [3, 3] [1, 0, 0, 0, 2, 0, 0, 0, 3])) (NDArray [3] [1, 1, 1])],
      Inr (NDArray [3] [1, 1 / 2, 1 / 3]))"
proof -
  note c = constructed_facts[OF diag123_facts(1-5), where solver_arg = None]
  have a: "matrix diag123_operator [] = Inr (Dense (NDArray [3, 3] [1, 0, 0, 0, 2, 0, 0, 0, 3]))"
    by (simp add: matrix_no_parameters diag123_facts)
  have r: "matrix ones_functional [] = Inr (Dense (NDArray [1, 3] [1, 1, 1]))"
    by (simp add: matrix_no_parameters diag123_facts)
  show ?thesis
    using solve_body_run[OF c(2) init_lookup(1)[OF c(1)] c(3) a _ init_lookup(2)[OF c(1)] c(4) r,
        of stalling_env] init_Inr(6,9,10)[OF c(1)]
    by (simp add: default_solver_def logged_def stalling_env_def diagonal_solve_diag123)
qed

lemma sparse123_body:
  "solve_body stalling_env (constructed sparse123_operator ones_functional None) [] =
     ([MatrixCall ''operator'' [], LogInfo None ''sparse'' [], MatrixCall ''rhs'' [],
       BicgCall (Sparse 3 3 [(0, 0, 1), (1, 1, 2), (2, 2, 3)]) (NDArray [3] [1, 1, 1])
         (1 / 10 ^ 12) 1000],
      Inr (NDArray [3] [0, 0, 0]))"
proof -
  note c = constructed_facts[OF sparse123_facts(1,2) diag123_facts(3) sparse123_facts(3)
      diag123_facts(5), where solver_arg = None]
  have a: "matrix sparse123_operator [] = Inr (Sparse 3 3 [(0, 0, 1), (1, 1, 2), (2, 2, 3)])"
    by (simp add: matrix_no_parameters sparse123_facts)
  have r: "matrix ones_functional [] = Inr (Dense (NDArray [1, 3] [1, 1, 1]))"
    by (simp add: matrix_no_parameters diag123_facts)
  show ?thesis
    using solve_body_run[OF c(2) init_lookup(1)[OF c(1)] c(3) a _ init_lookup(2)[OF c(1)] c(4) r,
        of stalling_env] init_Inr(6,9,10)[OF c(1)]
    by (simp add: default_solver_def logged_def stalling_env_def)
qed

section \<open>Repeated calls\<close>

text \<open>
  C2: When a call of \<open>solve\<close> has returned a result, the next call with the same
  parameter on the store it left returns that result from the cache: it requests no
  matrix, logs nothing and runs no solver, and leaves the store as it is. When the first
  call found no entry for the parameter, it has requested the system matrix exactly once
  and has run the solver at most once, exactly as often as it has requested the
  right-hand side (not at all for a system matrix of size zero); so the two calls
  together make these computations once.
\<close>

theorem second_solve_cached:
  assumes "StationaryLinearDiscretization_init operator rhs solver_arg visualizer name st0 = Inr (d, st1)"
    and "solve E d mu st = ((tr, Inr v), st')"
  shows "solve E d mu st' = (([], Inr v), st')
       \<and> (map_of (regions st (namespace d)) mu = None \<longrightarrow>
            length (filter (requests ''operator'') tr) = 1
          \<and> length (filter (requests ''rhs'') tr) = length (filter is_solver_call tr)
          \<and> length (filter is_solver_call tr) \<le> 1)"
proof -
  have "solve E d mu st' = (([], Inr v), st')"
    by (rule solve_hit[OF solve_stored[OF assms(2)]])
  moreover have "length (filter (requests ''operator'') tr) = 1
          \<and> length (filter (requests ''rhs'') tr) = length (filter is_solver_call tr)
          \<and> length (filter is_solver_call tr) \<le> 1"
    if miss: "map_of (regions st (namespace d)) mu = None"
  proof -
    have b: "solve_body E d mu = (tr, Inr v)"
      using assms(2) miss by (cases rule: solve_cases[of st d mu E]) auto
    have s: "solver d = default_solver \<or> (\<exists>s. solver d = user_solver s)"
      using init_Inr(6)[OF assms(1)] by (cases solver_arg) auto
    show ?thesis
      using solve_body_counts[OF s b] by simp
  qed
  ultimately show ?thesis by blast
qed

text \<open>Two calls on the system \<open>diag(1, 2, 3)\<close>, the first on the fresh cache.\<close>

theorem second_solve_cached_witness:
  "fst (solve stalling_env (constructed diag123_operator ones_functional None) [] fresh_store)
     = ([MatrixCall ''operator'' [], LogInfo None ''dense'' [], MatrixCall ''rhs'' [],
         LinalgSolveCall (Dense (NDArray [3, 3] [1, 0, 0, 0, 2, 0, 0, 0, 3])) (NDArray [3] [1, 1, 1])],
        Inr (NDArray [3] [1, 1 / 2, 1 / 3]))
   \<and> fst (solve stalling_env (constructed diag123_operator ones_functional None) []
       (snd (solve stalling_env (constructed diag123_operator ones_functional None) [] fresh_store)))
     = ([], Inr (NDArray [3] [1, 1 / 2, 1 / 3]))
   \<and> map_of (regions fresh_store (namespace (constructed diag123_operator ones_functional None))) []
     = None
   \<and> length (filter is_solver_call
       (fst (fst (solve stalling_env (constructed diag123_operator ones_functional None) []
          fresh_store)))) = 1"
proof -
  let ?d = "constructed diag123_operator ones_functional None"
  note c = constructed_facts[OF diag123_facts(1-5), where solver_arg = None]
  have miss: "map_of (regions fresh_store (namespace ?d)) [] = None"
    by (simp add: fresh_store_fields)
  note first = solve_miss_value[OF miss diag123_body]
  show ?thesis
    using second_solve_cached[OF c(1) first] miss first by simp
qed

section \<open>The iterative solver without convergence\<close>

text \<open>
  The claim C3 says that \<open>solve\<close> reports it as \<open>SolveNonConvergence\<close> when the iterative
  solver does not converge. It fails: here \<open>bicg\<close> returns the flag 1000, which is
  positive and so says that the tolerance was not reached within the iteration cap, and
  \<open>solve\<close> returns the iterate of \<open>bicg\<close> as its result.
\<close>

theorem nonconvergence_counterexample:
  "bicg stalling_env (Sparse 3 3 [(0, 0, 1), (1, 1, 2), (2, 2, 3)]) (NDArray [3] [1, 1, 1])
      (bicg_tol stalling_env) (bicg_maxiter stalling_env) = Inr (NDArray [3] [0, 0, 0], 1000)
   \<and> (0::int) < 1000
   \<and> fst (solve stalling_env (constructed sparse123_operator ones_functional None) [] fresh_store)
       = ([MatrixCall ''operator'' [], LogInfo None ''sparse'' [], MatrixCall ''rhs'' [],
           BicgCall (Sparse 3 3 [(0, 0, 1), (1, 1, 2), (2, 2, 3)]) (NDArray [3] [1, 1, 1])
             (1 / 10 ^ 12) 1000],
          Inr (NDArray [3] [0, 0, 0]))
   \<and> snd (fst (solve stalling_env (constructed sparse123_operator ones_functional None) []
        fresh_store)) \<noteq> Inl SolveNonConvergence"
proof -
  have miss: "map_of (regions fresh_store
       (namespace (constructed sparse123_operator ones_functional None))) [] = None"
    by (simp add: fresh_store_fields)
  show ?thesis
    using solve_miss_value[OF miss sparse123_body]
    by (simp add: stalling_env_def)
qed

text \<open>
  C3, as amended: on a sparse system matrix the default solver drops the convergence
  flag of \<open>bicg\<close>. Whatever the flag says, when \<open>bicg\<close> returns an iterate, \<open>solve\<close>
  returns that iterate as its result; no \<open>SolveNonConvergence\<close> is raised.
\<close>

theorem nonconvergence_ignored:
  assumes "StationaryLinearDiscretization_init operator rhs None visualizer name st = Inr (d, st')"
    and "parse_parameter (parameter_type d) raw = Inr mu"
    and "map_parameter (parameter_maps d) mu ''operator'' = Inr mu_op"
    and "matrix operator mu_op = Inr A"
    and "issparse A"
    and "matrix_size A \<noteq> 0"
    and "map_parameter (parameter_maps d) mu ''rhs'' = Inr mu_rhs"
    and "matrix rhs mu_rhs = Inr R"
    and "bicg E A (prepared_rhs E R) (bicg_tol E) (bicg_maxiter E) = Inr (U, info)"
    and "cache_consistent E d st2"
  shows "snd (fst (solve E d raw st2)) = Inr U"
proof -
  note run = solve_body_run[OF assms(2) init_lookup(1)[OF assms(1)] assms(3,4,6)
      init_lookup(2)[OF assms(1)] assms(7,8), of E]
  have "solver d = default_solver"
    using init_Inr(6)[OF assms(1)] by simp
  then have "snd (solve_body E d raw) = Inr U"
    using assms(5,9) by (simp add: run default_solver_def)
  then show ?thesis
    by (simp add: solve_result[OF assms(10)])
qed

text \<open>The sparse system \<open>diag(1, 2, 3)\<close> with a \<open>bicg\<close> that stops at its iteration cap.\<close>

theorem nonconvergence_ignored_witness:
  "issparse (Sparse 3 3 [(0, 0, 1), (1, 1, 2), (2, 2, 3)])
   \<and> bicg stalling_env (Sparse 3 3 [(0, 0, 1), (1, 1, 2), (2, 2, 3)])
       (prepared_rhs stalling_env (Dense (NDArray [1, 3] [1, 1, 1])))
       (bicg_tol stalling_env) (bicg_maxiter stalling_env) = Inr (NDArray [3] [0, 0, 0], 1000)
   \<and> cache_consistent stalling_env (constructed sparse123_operator ones_functional None) fresh_store
   \<and> snd (fst (solve stalling_env (constructed sparse123_operator ones_functional None) []
        fresh_store)) = Inr (NDArray [3] [0, 0, 0])"
proof -
  let ?d = "constructed sparse123_operator ones_functional None"
  let ?A = "Sparse 3 3 [(0, 0, 1), (1, 1, 2), (2, 2, 3)]"
  note c = constructed_facts[OF sparse123_facts(1,2) diag123_facts(3) sparse123_facts(3)
      diag123_facts(5), where solver_arg = None]
  have a: "matrix sparse123_operator [] = Inr ?A"
    by (simp add: matrix_no_parameters sparse123_facts)
  have r: "matrix ones_functional [] = Inr (Dense (NDArray [1, 3] [1, 1, 1]))"
    by (simp add: matrix_no_parameters diag123_facts)
  have sp: "issparse ?A" and sz: "matrix_size ?A \<noteq> 0"
    by simp_all
  have b: "bicg stalling_env ?A (prepared_rhs stalling_env (Dense (NDArray [1, 3] [1, 1, 1])))
       (bicg_tol stalling_env) (bicg_maxiter stalling_env) = Inr (NDArray [3] [0, 0, 0], 1000)"
    by (simp add: stalling_env_def)
  have cc: "cache_consistent stalling_env ?d fresh_store"
    by (rule cache_consistent_fresh) (simp add: fresh_store_fields)
  show ?thesis
    using nonconvergence_ignored[OF c(1) c(2) c(3) a sp sz c(4) r b cc] sp b cc by simp
qed

section \<open>The scenario of the diagonal system\<close>

text \<open>
  C4: A discretization constructed without a solver from operators without parameters,
  whose system matrix is the dense \<open>diag(1, 2, 3)\<close> and whose right-hand side is the row
  \<open>[1, 1, 1]\<close>, solves under the empty parameter to \<open>[1, 1/2, 1/3]\<close> by one call of
  \<open>numpy.linalg.solve\<close>, provided that this call returns a vector that solves the system
  exactly; the second call with the empty parameter returns the same vector from the
  cache without any request of a matrix and without a run of the solver.
\<close>

theorem diag123_scenario:
  assumes "StationaryLinearDiscretization_init operator rhs None visualizer name st0 = Inr (d, st1)"
    and "op_parameter_type operator = []" and "op_parameter_type rhs = []"
    and "assemble operator [] = Inr (Dense (NDArray [3, 3] [1, 0, 0, 0, 2, 0, 0, 0, 3]))"
    and "assemble rhs [] = Inr (Dense (NDArray [1, 3] [1, 1, 1]))"
    and "linalg_solve E (Dense (NDArray [3, 3] [1, 0, 0, 0, 2, 0, 0, 0, 3])) (NDArray [3] [1, 1, 1])
           = Inr x"
    and "solves (Dense (NDArray [3, 3] [1, 0, 0, 0, 2, 0, 0, 0, 3])) x (NDArray [3] [1, 1, 1])"
  shows "fst (solve E d [] st1) =
           ([MatrixCall ''operator'' [], LogInfo name ''dense'' [], MatrixCall ''rhs'' [],
             LinalgSolveCall (Dense (NDArray [3, 3] [1, 0, 0, 0, 2, 0, 0, 0, 3])) (NDArray [3] [1, 1, 1])],
            Inr (NDArray [3] [1, 1 / 2, 1 / 3]))
       \<and> solve E d [] (snd (solve E d [] st1)) =
           (([], Inr (NDArray [3] [1, 1 / 2, 1 / 3])), snd (solve E d [] st1))"
proof -
  let ?A = "Dense (NDArray [3, 3] [1, 0, 0, 0, 2, 0, 0, 0, 3])"
  have x: "x = NDArray [3] [1, 1 / 2, 1 / 3]"
    by (rule solves_diag123[OF assms(7)])
  have pt: "parameter_type d = []"
    using init_Inr(11)[OF assms(1)] assms(2,3) by (simp add: build_parameter_type_def)
  have p: "parse_parameter (parameter_type d) [] = Inr []"
    by (simp add: pt parse_parameter_def)
  have m1: "map_parameter (parameter_maps d) [] ''operator'' = Inr []"
    by (simp add: init_map_parameter(1)[OF assms(1)])
  have m2: "map_parameter (parameter_maps d) [] ''rhs'' = Inr []"
    by (simp add: init_map_parameter(2)[OF assms(1)])
  have a: "matrix operator [] = Inr ?A"
    by (simp add: matrix_no_parameters assms(2,4))
  have r: "matrix rhs [] = Inr (Dense (NDArray [1, 3] [1, 1, 1]))"
    by (simp add: matrix_no_parameters assms(3,5))
  have sol: "solver d = default_solver"
    using init_Inr(6)[OF assms(1)] by simp
  have b: "solve_body E d [] =
           ([MatrixCall ''operator'' [], LogInfo name ''dense'' [], MatrixCall ''rhs'' [],
             LinalgSolveCall ?A (NDArray [3] [1, 1, 1])],
            Inr (NDArray [3] [1, 1 / 2, 1 / 3]))"
    using solve_body_run[OF p init_lookup(1)[OF assms(1)] m1 a _ init_lookup(2)[OF assms(1)] m2 r, of E]
      assms(6) x init_Inr(9,10)[OF assms(1)]
    by (simp add: sol default_solver_def logged_def)
  have miss: "map_of (regions st1 (namespace d)) [] = None"
    using init_Inr(7,8)[OF assms(1)] by (simp add: Cachable_init_def)
  note first = solve_miss_value[OF miss b]
  have second: "solve E d [] (snd (solve E d [] st1)) =
           (([], Inr (NDArray [3] [1, 1 / 2, 1 / 3])), snd (solve E d [] st1))"
    by (rule solve_hit) (simp add: first)
  show ?thesis
    using first second by simp
qed

text \<open>The scenario with a direct solver that divides by the diagonal.\<close>

theorem diag123_scenario_witness:
  "fst (solve stalling_env (constructed diag123_operator ones_functional None) [] fresh_store) =
     ([MatrixCall ''operator'' [], LogInfo None ''dense'' [], MatrixCall ''rhs'' [],
       LinalgSolveCall (Dense (NDArray [3, 3] [1, 0, 0, 0, 2, 0, 0, 0, 3])) (NDArray [3] [1, 1, 1])],
      Inr (NDArray [3] [1, 1 / 2, 1 / 3]))
   \<and> fst (solve stalling_env (constructed diag123_operator ones_functional None) []
        (snd (solve stalling_env (constructed diag123_operator ones_functional None) [] fresh_store)))
      = ([], Inr (NDArray [3] [1, 1 / 2, 1 / 3]))"
proof -
  have l: "linalg_solve stalling_env (Dense (NDArray [3, 3] [1, 0, 0, 0, 2, 0, 0, 0, 3]))
             (NDArray [3] [1, 1, 1]) = Inr (NDArray [3] [1, 1 / 2, 1 / 3])"
    by (simp add: stalling_env_def diagonal_solve_diag123)
  show ?thesis
    using diag123_scenario[OF constructed_facts(1)[OF diag123_facts(1-5)] diag123_facts(4-7) l
        solves_diagonal]
    by simp
qed

section \<open>Systems of dimension zero\<close>

text \<open>
  C5: When the assembled system matrix has dimension zero, \<open>solve\<close> returns the empty
  vector and runs no solver, neither in the body nor in the cached call.
\<close>

theorem zero_dimension_empty:
  assumes "cache_consistent E d st"
    and "parse_parameter (parameter_type d) raw = Inr mu"
    and "lookup_operator d ''operator'' = Inr operator"
    and "map_parameter (parameter_maps d) mu ''operator'' = Inr mu_op"
    and "matrix operator mu_op = Inr A"
    and "wf_matrix A" and "zero_dim A"
  shows "snd (fst (solve E d raw st)) = Inr (NDArray [0] [])
       \<and> filter is_solver_call (fst (fst (solve E d raw st))) = []
       \<and> filter is_solver_call (fst (solve_body E d raw)) = []"
proof -
  note b = solve_body_zero[OF assms(2-5) zero_dim_size[OF assms(6,7)], of E]
  have "snd (fst (solve E d raw st)) = Inr (NDArray [0] [])"
    using solve_result[OF assms(1), of raw] b by (simp add: np_zeros_def)
  moreover have "filter is_solver_call (fst (solve_body E d raw)) = []"
    using b by simp
  moreover have "filter is_solver_call (fst (fst (solve E d raw st))) = []"
    using solve_trace[of E d raw st] calculation(2) by auto
  ultimately show ?thesis by simp
qed

text \<open>The system with no unknowns.\<close>

theorem zero_dimension_empty_witness:
  "cache_consistent stalling_env (constructed empty_operator empty_functional None) fresh_store
   \<and> wf_matrix (Dense (NDArray [0, 0] [])) \<and> zero_dim (Dense (NDArray [0, 0] []))
   \<and> fst (solve stalling_env (constructed empty_operator empty_functional None) [] fresh_store)
       = ([MatrixCall ''operator'' [], LogInfo None ''dense'' []], Inr (NDArray [0] []))"
proof -
  let ?d = "constructed empty_operator empty_functional None"
  note c = constructed_facts[OF empty_facts(1-5), where solver_arg = None]
  have cc: "cache_consistent stalling_env ?d fresh_store"
    by (rule cache_consistent_fresh) (simp add: fresh_store_fields)
  have a: "matrix empty_operator [] = Inr (Dense (NDArray [0, 0] []))"
    by (simp add: matrix_no_parameters empty_facts)
  have w: "wf_matrix (Dense (NDArray [0, 0] []))" and z: "zero_dim (Dense (NDArray [0, 0] []))"
    by simp_all
  have tr: "fst (fst (solve stalling_env ?d [] fresh_store))
       = [MatrixCall ''operator'' [], LogInfo None ''dense'' []]"
    using solve_miss_value[OF _ solve_body_zero[OF c(2) init_lookup(1)[OF c(1)] c(3) a], of fresh_store stalling_env]
      init_Inr(9,10)[OF c(1)]
    by (simp add: fresh_store_fields logged_def)
  show ?thesis
    using zero_dimension_empty[OF cc c(2) init_lookup(1)[OF c(1)] c(3) a w z] cc tr
    by (simp add: prod_eq_iff)
qed

section \<open>The dimensions checked by the constructor\<close>

text \<open>
  C6: The constructor raises \<open>AssertionError\<close> unless
  \<open>operator.dim_source == operator.dim_range == rhs.dim_source\<close> and
  \<open>rhs.dim_range == 1\<close>; and whenever it returns a discretization, these relations
  hold for the operators given and for the operators the discretization holds.
\<close>

theorem init_dimensions:
  "(\<not> (dim_source operator = dim_range operator \<and> dim_range operator = dim_source rhs
        \<and> dim_range rhs = 1)
      \<longrightarrow> StationaryLinearDiscretization_init operator rhs solver_arg visualizer name st
            = Inl AssertionError)
   \<and> (StationaryLinearDiscretization_init operator rhs solver_arg visualizer name st = Inr (d, st')
      \<longrightarrow> dim_source operator = dim_range operator \<and> dim_range operator = dim_source rhs
          \<and> dim_range rhs = 1 \<and> dimension_invariant d)"
proof -
  have "dimension_invariant d"
    if "StationaryLinearDiscretization_init operator rhs solver_arg visualizer name st = Inr (d, st')"
    using init_Inr(1-4)[OF that] by (simp add: dimension_invariant_def)
  then show ?thesis
    by (auto simp: StationaryLinearDiscretization_init_def split: if_splits)
qed

text \<open>A right-hand side with three rows is refused; the row functional is accepted.\<close>

theorem init_dimensions_witness:
  "\<not> (dim_source diag123_operator = dim_range diag123_operator
        \<and> dim_range diag123_operator = dim_source diag123_operator
        \<and> dim_range diag123_operator = 1)
   \<and> StationaryLinearDiscretization_init diag123_operator diag123_operator None None None empty_store
       = Inl AssertionError
   \<and> StationaryLinearDiscretization_init diag123_operator ones_functional None None None empty_store
       = Inr (constructed diag123_operator ones_functional None, fresh_store)
   \<and> dimension_invariant (constructed diag123_operator ones_functional None)"
proof -
  have n: "\<not> (dim_source diag123_operator = dim_range diag123_operator
        \<and> dim_range diag123_operator = dim_source diag123_operator
        \<and> dim_range diag123_operator = 1)"
    by (simp add: diag123_operator_def)
  note c = constructed_facts(1)[OF diag123_facts(1-5), where solver_arg = None]
  show ?thesis
    using init_dimensions[of diag123_operator diag123_operator None None None empty_store]
      init_dimensions[of diag123_operator ones_functional None None None empty_store
        "constructed diag123_operator ones_functional None" fresh_store] n c
    by simp
qed

section \<open>Copies\<close>

text \<open>
  C7: The copy of a discretization has a cache namespace of its own, which is empty, and
  the same body of \<open>solve\<close>. Calls of \<open>solve\<close> on the copy store their results in
  the namespace of the copy and leave the entries of the original as they are, so that
  every later call on the original returns what it would have returned without them
  (its result and what it computes); and the same holds with the copy and the original
  exchanged.
\<close>

theorem copy_independent:
  assumes "namespace d < next_namespace st" and "copy d st = (c, st1)"
  shows "namespace c \<noteq> namespace d
       \<and> regions st1 (namespace c) = []
       \<and> regions st1 (namespace d) = regions st (namespace d)
       \<and> solve_body E c raw = solve_body E d raw
       \<and> regions (solve_many E c mus st2) (namespace d) = regions st2 (namespace d)
       \<and> fst (solve E d mu (solve_many E c mus st2)) = fst (solve E d mu st2)
       \<and> regions (solve_many E d mus st2) (namespace c) = regions st2 (namespace c)
       \<and> fst (solve E c mu (solve_many E d mus st2)) = fst (solve E c mu st2)
       \<and> (solve E c mu st2 = ((tr, Inr v), st3)
            \<longrightarrow> map_of (regions st3 (namespace c)) mu = Some v
              \<and> regions st3 (namespace d) = regions st2 (namespace d))"
proof -
  note f = copy_fields[OF assms(2)]
  have ne: "namespace c \<noteq> namespace d"
    using assms(1) by (simp add: f(1))
  have r1: "regions st1 (namespace c) = []"
    by (simp add: f)
  have r2: "regions st1 (namespace d) = regions st (namespace d)"
    using assms(1) by (simp add: f(2))
  have b: "solve_body E c raw = solve_body E d raw"
    by (simp add: f(1) solve_body_namespace)
  have m1: "regions (solve_many E c mus st2) (namespace d) = regions st2 (namespace d)"
    by (rule solve_many_frame) (use ne in simp)
  have m2: "regions (solve_many E d mus st2) (namespace c) = regions st2 (namespace c)"
    by (rule solve_many_frame) (use ne in simp)
  have s: "regions st3 (namespace d) = regions st2 (namespace d)"
    if "solve E c mu st2 = ((tr, Inr v), st3)"
    using solve_frame[of "namespace d" c E mu st2] ne that by simp
  show ?thesis
    using ne r1 r2 b m1 m2 solve_local[OF m1] solve_local[OF m2] solve_stored s by blast
qed

text \<open>A copy of the system \<open>diag(1, 2, 3)\<close>, solved twice.\<close>

theorem copy_independent_witness:
  "namespace (constructed diag123_operator ones_functional None) < next_namespace fresh_store
   \<and> namespace (fst (copy (constructed diag123_operator ones_functional None) fresh_store))
       \<noteq> namespace (constructed diag123_operator ones_functional None)
   \<and> regions (solve_many stalling_env
        (fst (copy (constructed diag123_operator ones_functional None) fresh_store)) [[], []]
        (snd (copy (constructed diag123_operator ones_functional None) fresh_store)))
       (namespace (constructed diag123_operator ones_functional None)) = []
   \<and> fst (solve stalling_env (fst (copy (constructed diag123_operator ones_functional None) fresh_store))
        [] (snd (copy (constructed diag123_operator ones_functional None) fresh_store)))
       = ([MatrixCall ''operator'' [], LogInfo None ''dense'' [], MatrixCall ''rhs'' [],
           LinalgSolveCall (Dense (NDArray [3, 3] [1, 0, 0, 0, 2, 0, 0, 0, 3])) (NDArray [3] [1, 1, 1])],
          Inr (NDArray [3] [1, 1 / 2, 1 / 3]))
   \<and> map_of (regions (snd (solve stalling_env
        (fst (copy (constructed diag123_operator ones_functional None) fresh_store))
        [] (snd (copy (constructed diag123_operator ones_functional None) fresh_store))))
       (namespace (fst (copy (constructed diag123_operator ones_functional None) fresh_store)))) []
       = Some (NDArray [3] [1, 1 / 2, 1 / 3])"
proof -
  let ?d = "constructed diag123_operator ones_functional None"
  let ?c = "fst (copy ?d fresh_store)"
  let ?st1 = "snd (copy ?d fresh_store)"
  note k = constructed_facts[OF diag123_facts(1-5), where solver_arg = None]
  have lt: "namespace ?d < next_namespace fresh_store"
    by (simp add: k(5) fresh_store_fields)
  have cp: "copy ?d fresh_store = (?c, ?st1)"
    by simp
  note t = copy_independent[OF lt cp, where E = stalling_env and raw = "[]" and mu = "[]"]
  have nc: "namespace ?c = 1"
    using copy_fields(1)[OF cp] by (simp add: fresh_store_fields)
  have r1: "regions ?st1 ns = []" for ns
    using copy_fields(2)[OF cp] by (simp add: fresh_store_fields)
  have b: "solve_body stalling_env ?c [] = solve_body stalling_env ?d []"
    using t by simp
  have miss: "map_of (regions ?st1 (namespace ?c)) [] = None"
    by (simp add: r1)
  note first = solve_miss_value[OF miss b[unfolded diag123_body]]
  show ?thesis
    using t[of "[[], []]" ?st1 "fst (fst (solve stalling_env ?c [] ?st1))"
        "NDArray [3] [1, 1 / 2, 1 / 3]" "snd (solve stalling_env ?c [] ?st1)"] lt first r1
    by simp
qed

section \<open>Parameters that fail validation\<close>

text \<open>
  C8: When the parameter fails validation against the parameter type of the
  discretization, \<open>solve\<close> raises \<open>ParameterValidationError\<close> before anything else
  happens: no matrix is requested, no solver runs and the cache is left as it is.
\<close>

theorem invalid_parameter_rejected:
  assumes "cache_consistent E d st"
    and "parse_parameter (parameter_type d) raw = Inl e"
  shows "solve E d raw st = (([], Inl ParameterValidationError), st)"
proof -
  have e: "e = ParameterValidationError"
    by (rule parse_parameter_error[OF assms(2)])
  have b: "solve_body E d raw = ([], Inl ParameterValidationError)"
    using assms(2) e by (simp add: solve_body_def)
  show ?thesis
  proof (cases "map_of (regions st (namespace d)) raw")
    case None
    then show ?thesis by (rule solve_miss_error[OF _ b])
  next
    case (Some v)
    from cache_consistent_lookup[OF assms(1) Some] b show ?thesis by simp
  qed
qed

text \<open>A parameter with a name the discretization does not know.\<close>

theorem invalid_parameter_rejected_witness:
  "cache_consistent stalling_env (constructed diag123_operator ones_functional None) fresh_store
   \<and> parse_parameter (parameter_type (constructed diag123_operator ones_functional None))
       [(''unknown'', NDArray [] [1])] = Inl ParameterValidationError
   \<and> solve stalling_env (constructed diag123_operator ones_functional None)
       [(''unknown'', NDArray [] [1])] fresh_store
       = (([], Inl ParameterValidationError), fresh_store)"
proof -
  let ?d = "constructed diag123_operator ones_functional None"
  note c = constructed_facts[OF diag123_facts(1-5), where solver_arg = None]
  have cc: "cache_consistent stalling_env ?d fresh_store"
    by (rule cache_consistent_fresh) (simp add: fresh_store_fields)
  have pt: "parameter_type ?d = []"
    using init_Inr(11)[OF c(1)] by (simp add: diag123_facts build_parameter_type_def)
  have p: "parse_parameter (parameter_type ?d) [(''unknown'', NDArray [] [1])]
             = Inl ParameterValidationError"
    by (simp add: pt parse_parameter_def)
  show ?thesis
    using invalid_parameter_rejected[OF cc p] cc p by simp
qed

section \<open>The shape of the right-hand side\<close>

text \<open>
  C10: When the right-hand side is assembled as a dense row of shape \<open>(1, n)\<close>, the
  solver is called with the one-dimensional vector of shape \<open>(n,)\<close> of the same
  entries: for \<open>n\<close> other than one this is the squeezed row; for \<open>n\<close> equal to one the
  squeezed row has no axis left and is expanded to one axis of length one.
\<close>

theorem rhs_one_dimensional:
  assumes "parse_parameter (parameter_type d) raw = Inr mu"
    and "lookup_operator d ''operator'' = Inr operator"
    and "map_parameter (parameter_maps d) mu ''operator'' = Inr mu_op"
    and "matrix operator mu_op = Inr A"
    and "matrix_size A \<noteq> 0"
    and "lookup_operator d ''rhs'' = Inr rhs"
    and "map_parameter (parameter_maps d) mu ''rhs'' = Inr mu_rhs"
    and "matrix rhs mu_rhs = Inr (Dense (NDArray [1, n] xs))"
  shows "solve_body E d raw =
           (MatrixCall ''operator'' mu_op # logged d A mu @ MatrixCall ''rhs'' mu_rhs #
              fst (solver d E A (NDArray [n] xs)),
            snd (solver d E A (NDArray [n] xs)))
       \<and> ndim (NDArray [n] xs) = 1
       \<and> (n \<noteq> 1 \<longrightarrow> np_squeeze (NDArray [1, n] xs) = NDArray [n] xs)
       \<and> (n = 1 \<longrightarrow> ndim (np_squeeze (NDArray [1, n] xs)) = 0
                  \<and> newaxis (np_squeeze (NDArray [1, n] xs)) = NDArray [1] xs)"
  using solve_body_run[OF assms, of E]
  by (simp add: ndim_def np_squeeze_def newaxis_def)

text \<open>The systems with three unknowns and with one unknown.\<close>

theorem rhs_one_dimensional_witness:
  "solve_body stalling_env (constructed diag123_operator ones_functional None) [] =
     (MatrixCall ''operator'' [] #
        logged (constructed diag123_operator ones_functional None)
          (Dense (NDArray [3, 3] [1, 0, 0, 0, 2, 0, 0, 0, 3])) [] @
        MatrixCall ''rhs'' [] #
        fst (solver (constructed diag123_operator ones_functional None) stalling_env
               (Dense (NDArray [3, 3] [1, 0, 0, 0, 2, 0, 0, 0, 3])) (NDArray [3] [1, 1, 1])),
      snd (solver (constructed diag123_operator ones_functional None) stalling_env
             (Dense (NDArray [3, 3] [1, 0, 0, 0, 2, 0, 0, 0, 3])) (NDArray [3] [1, 1, 1])))
   \<and> np_squeeze (NDArray [1, 3] [1, 1, 1]) = NDArray [3] [1, 1, 1]
   \<and> solve_body stalling_env (constructed scalar_operator scalar_functional None) [] =
     (MatrixCall ''operator'' [] #
        logged (constructed scalar_operator scalar_functional None) (Dense (NDArray [1, 1] [2])) [] @
        MatrixCall ''rhs'' [] #
        fst (solver (constructed scalar_operator scalar_functional None) stalling_env
               (Dense (NDArray [1, 1] [2])) (NDArray [1] [1])),
      snd (solver (constructed scalar_operator scalar_functional None) stalling_env
             (Dense (NDArray [1, 1] [2])) (NDArray [1] [1])))
   \<and> ndim (np_squeeze (NDArray [1, 1] [1])) = 0
   \<and> newaxis (np_squeeze (NDArray [1, 1] [1])) = NDArray [1] [1]"
proof -
  note c = constructed_facts[OF diag123_facts(1-5), where solver_arg = None]
  note s = constructed_facts[OF scalar_facts(1-5), where solver_arg = None]
  have a: "matrix diag123_operator [] = Inr (Dense (NDArray [3, 3] [1, 0, 0, 0, 2, 0, 0, 0, 3]))"
    by (simp add: matrix_no_parameters diag123_facts)
  have r: "matrix ones_functional [] = Inr (Dense (NDArray [1, 3] [1, 1, 1]))"
    by (simp add: matrix_no_parameters diag123_facts)
  have a1: "matrix scalar_operator [] = Inr (Dense (NDArray [1, 1] [2]))"
    by (simp add: matrix_no_parameters scalar_facts)
  have r1: "matrix scalar_functional [] = Inr (Dense (NDArray [1, 1] [1]))"
    by (simp add: matrix_no_parameters scalar_facts)
  have z: "matrix_size (Dense (NDArray [3, 3] [1, 0, 0, 0, 2, 0, 0, 0, 3])) \<noteq> 0"
    "matrix_size (Dense (NDArray [1, 1] [2])) \<noteq> 0"
    by simp_all
  show ?thesis
    using rhs_one_dimensional[OF c(2) init_lookup(1)[OF c(1)] c(3) a z(1) init_lookup(2)[OF c(1)]
        c(4) r, of stalling_env]
      rhs_one_dimensional[OF s(2) init_lookup(1)[OF s(1)] s(3) a1 z(2) init_lookup(2)[OF s(1)]
        s(4) r1, of stalling_env]
    by simp
qed

section \<open>The Dirichlet rows of the diffusion operator\<close>

lemma sum_at_append: "sum_at (xs @ ys) i j = sum_at xs i j + sum_at ys i j"
  by (simp add: sum_at_def)

lemma sum_at_zero:
  assumes "\<forall>(i', j', v) \<in> set es. i' = i \<and> j' = j \<longrightarrow> v = 0"
  shows "sum_at es i j = 0"
  using assms by (induction es) (auto simp: sum_at_def)

lemma sum_at_grouped:
  "distinct ps \<Longrightarrow>
   sum_at (map (\<lambda>(i, j). (i, j, g i j)) ps) i j = (if (i, j) \<in> set ps then g i j else 0)"
  by (induction ps) (auto simp: sum_at_def)

lemma entry_csr_matrix: "entry (csr_matrix r c es) i j = sum_at es i j"
proof -
  have "entry (csr_matrix r c es) i j
      = sum_at (map (\<lambda>(i, j). (i, j, sum_at es i j)) (remdups (map (\<lambda>(i, j, v). (i, j)) es))) i j"
    by (simp add: csr_matrix_def sum_at_def)
  also have "\<dots> = (if (i, j) \<in> set (map (\<lambda>(i, j, v). (i, j)) es) then sum_at es i j else 0)"
    by (simp add: sum_at_grouped)
  also have "\<dots> = sum_at es i j"
  proof (cases "(i, j) \<in> set (map (\<lambda>(i, j, v). (i, j)) es)")
    case True
    then show ?thesis by simp
  next
    case False
    then have "sum_at es i j = 0"
      by (intro sum_at_zero) force
    with False show ?thesis by simp
  qed
  finally show ?thesis .
qed

lemma sum_at_diagonal:
  "distinct bs \<Longrightarrow>
   sum_at (zip bs (zip bs (replicate (length bs) 1))) i j = (if i = j \<and> i \<in> set bs then 1 else 0)"
  by (induction bs) (auto simp: sum_at_def)

lemma sum_at_zip_zero:
  assumes "length rs = length vs" "length cs = length vs"
    and "\<And>k. k < length vs \<Longrightarrow> rs ! k = i \<Longrightarrow> cs ! k = j \<Longrightarrow> vs ! k = 0"
  shows "sum_at (zip rs (zip cs vs)) i j = 0"
proof (rule sum_at_zero, clarify)
  fix v assume "(i, j, v) \<in> set (zip rs (zip cs vs))"
  then obtain k where k: "k < length rs" "rs ! k = i" "zip cs vs ! k = (j, v)" "k < length (zip cs vs)"
    by (auto simp: in_set_zip)
  then have "cs ! k = j" "vs ! k = v" "k < length vs"
    using assms(1,2) by auto
  with assms(3) k(2) show "v = 0" by blast
qed

lemma np_where_length:
  assumes "np_where m x ys = Inr zs"
  shows "length m \<noteq> 1 \<Longrightarrow> length zs = length m"
    and "length m = 1 \<Longrightarrow> length zs = length ys"
  using assms by (auto simp: np_where_def split: if_splits)

lemma np_where_masked:
  assumes "np_where m x ys = Inr zs" "length zs = length m" "k < length m" "m ! k"
  shows "zs ! k = x"
  using assms by (auto simp: np_where_def split: if_splits)

lemma np_where_nth:
  assumes "np_where m x ys = Inr zs" "length ys = length m" "k < length m"
  shows "zs ! k = (if m ! k then x else ys ! k)"
  using assms by (auto simp: np_where_def split: if_splits)

lemma take_indices_nth:
  assumes "take_indices xs idx = Inr ys"
  shows "length ys = length idx" and "k < length idx \<Longrightarrow> ys ! k = xs ! (idx ! k)"
  using assms by (auto simp: take_indices_def split: if_splits)

lemma boundary_treatment_dirichlet:
  assumes bt: "boundary_treatment op ints I0 I1 = Inr (v, r, c)"
    and hd: "has_dirichlet (op_boundary_info op)"
    and diag: "\<not> dirichlet_clear_diag op"
    and lr: "length r = length v" and lc: "length c = length v"
  obtains ints2 where
    "v = ints2 @ replicate (length (dirichlet_boundaries (op_boundary_info op))) 1"
    "r = I0 @ dirichlet_boundaries (op_boundary_info op)"
    "c = I1 @ dirichlet_boundaries (op_boundary_info op)"
    "length ints2 = length I0" "length I1 = length I0"
    "\<And>k. k < length I0 \<Longrightarrow> dirichlet_mask (op_boundary_info op) ! (I0 ! k) \<Longrightarrow> ints2 ! k = 0"
    "\<And>k. dirichlet_clear_columns op \<Longrightarrow> k < length I0
        \<Longrightarrow> dirichlet_mask (op_boundary_info op) ! (I1 ! k) \<Longrightarrow> ints2 ! k = 0"
proof -
  let ?bi = "op_boundary_info op"
  let ?DB = "dirichlet_boundaries ?bi"
  from bt hd obtain m0 ints1 where
    m0: "take_indices (dirichlet_mask ?bi) I0 = Inr m0"
    and w1: "np_where m0 0 ints = Inr ints1"
    by (auto simp: boundary_treatment_def Let_def split: sum.splits)
  from bt hd diag m0 w1 obtain ints2 where
    w2: "(if dirichlet_clear_columns op
          then (case take_indices (dirichlet_mask ?bi) I1 of
                  Inl e \<Rightarrow> Inl e
                | Inr m1 \<Rightarrow> np_where m1 0 ints1)
          else Inr ints1) = Inr ints2"
    and v: "v = ints2 @ replicate (length ?DB) 1"
    and r: "r = I0 @ ?DB" and c: "c = I1 @ ?DB"
    by (auto simp: boundary_treatment_def Let_def split: sum.splits)
  from lr lc v r c have l2: "length ints2 = length I0" and l1: "length I1 = length I0"
    by simp_all
  note t0 = take_indices_nth[OF m0]
  have len1: "length ints1 = length I0"
  proof (cases "dirichlet_clear_columns op")
    case False
    with w2 l2 show ?thesis by simp
  next
    case True
    with w2 obtain m1 where m1: "take_indices (dirichlet_mask ?bi) I1 = Inr m1"
      and w: "np_where m1 0 ints1 = Inr ints2"
      by (auto split: sum.splits)
    note t1 = take_indices_nth[OF m1]
    show ?thesis
    proof (cases "length I0 = 1")
      case True
      with np_where_length(2)[OF w] t1(1) l1 l2 show ?thesis by simp
    next
      case False
      with np_where_length(1)[OF w1] t0(1) show ?thesis by simp
    qed
  qed
  have row1: "ints1 ! k = 0" if "k < length I0" "dirichlet_mask ?bi ! (I0 ! k)" for k
    using np_where_masked[OF w1, of k] len1 t0 that by simp
  have row: "ints2 ! k = 0" if k: "k < length I0" "dirichlet_mask ?bi ! (I0 ! k)" for k
  proof (cases "dirichlet_clear_columns op")
    case False
    with w2 row1[OF k] show ?thesis by simp
  next
    case True
    with w2 obtain m1 where m1: "take_indices (dirichlet_mask ?bi) I1 = Inr m1"
      and w: "np_where m1 0 ints1 = Inr ints2"
      by (auto split: sum.splits)
    note t1 = take_indices_nth[OF m1]
    from np_where_nth[OF w, of k] len1 l1 t1(1) k(1) row1[OF k] show ?thesis by simp
  qed
  have col: "ints2 ! k = 0"
    if cc: "dirichlet_clear_columns op" and k: "k < length I0" "dirichlet_mask ?bi ! (I1 ! k)" for k
  proof -
    from w2 cc obtain m1 where m1: "take_indices (dirichlet_mask ?bi) I1 = Inr m1"
      and w: "np_where m1 0 ints1 = Inr ints2"
      by (auto split: sum.splits)
    note t1 = take_indices_nth[OF m1]
    from np_where_masked[OF w, of k] l1 l2 t1 k show ?thesis by simp
  qed
  from that[OF v r c l2 l1 row col] show thesis by blast
qed

text \<open>
  C9: When the boundary information has a Dirichlet boundary and the diagonal is not
  cleared, every row of the assembled matrix that belongs to a Dirichlet vertex is a unit
  row: one on the diagonal and zero elsewhere; and when the columns are cleared, the
  column of every Dirichlet vertex is zero off the diagonal. The mask and the list of the
  Dirichlet vertices are taken to describe the same vertices.
\<close>

theorem dirichlet_rows_unit:
  assumes "DiffusionOperatorP1_assemble op SF_INTS = Inr A"
    and "has_dirichlet (op_boundary_info op)"
    and "\<not> dirichlet_clear_diag op"
    and "dirichlet_consistent (op_boundary_info op)"
    and "i \<in> set (dirichlet_boundaries (op_boundary_info op))"
  shows "entry A i i = 1
       \<and> (\<forall>j. j \<noteq> i \<longrightarrow> entry A i j = 0)
       \<and> (dirichlet_clear_columns op \<longrightarrow> (\<forall>j. j \<noteq> i \<longrightarrow> entry A j i = 0))"
proof -
  let ?bi = "op_boundary_info op"
  let ?DB = "dirichlet_boundaries ?bi"
  let ?g = "op_grid op"
  let ?I0 = "np_repeat_ravel (subentities ?g) (dim ?g + 1)"
  let ?I1 = "np_tile_ravel (subentities ?g) (dim ?g + 1)"
  from assms(1) obtain v r c es where
    bt: "boundary_treatment op SF_INTS ?I0 ?I1 = Inr (v, r, c)"
    and coo: "coo_matrix v r c (num_vertices ?g) = Inr es"
    and A: "A = csr_matrix (num_vertices ?g) (num_vertices ?g) es"
    by (auto simp: DiffusionOperatorP1_assemble_def Let_def split: if_splits sum.splits)
  from coo have lr: "length r = length v" and lc: "length c = length v"
    and es: "es = zip r (zip c v)"
    by (auto simp: coo_matrix_def split: if_splits)
  from boundary_treatment_dirichlet[OF bt assms(2,3) lr lc] obtain ints2 where
    v: "v = ints2 @ replicate (length ?DB) 1"
    and r: "r = ?I0 @ ?DB" and c: "c = ?I1 @ ?DB"
    and l2: "length ints2 = length ?I0" and l1: "length ?I1 = length ?I0"
    and row: "\<And>k. k < length ?I0 \<Longrightarrow> dirichlet_mask ?bi ! (?I0 ! k) \<Longrightarrow> ints2 ! k = 0"
    and col: "\<And>k. dirichlet_clear_columns op \<Longrightarrow> k < length ?I0
        \<Longrightarrow> dirichlet_mask ?bi ! (?I1 ! k) \<Longrightarrow> ints2 ! k = 0"
    by blast
  have z: "zip (?I1 @ ?DB) (ints2 @ replicate (length ?DB) 1)
             = zip ?I1 ints2 @ zip ?DB (replicate (length ?DB) 1)"
    by (rule zip_append) (simp only: l1 l2)
  have split: "es = zip ?I0 (zip ?I1 ints2) @ zip ?DB (zip ?DB (replicate (length ?DB) 1))"
    unfolding es v r c z by (rule zip_append) (simp only: length_zip l1 l2 min.idem)
  have dist: "distinct ?DB" and mask: "dirichlet_mask ?bi ! i"
    using assms(4,5) by (auto simp: dirichlet_consistent_def)
  have e: "entry A a b = sum_at (zip ?I0 (zip ?I1 ints2)) a b
             + (if a = b \<and> a \<in> set ?DB then 1 else 0)" for a b
    unfolding A entry_csr_matrix split sum_at_append sum_at_diagonal[OF dist] ..
  have rz: "sum_at (zip ?I0 (zip ?I1 ints2)) i j = 0" for j
  proof (rule sum_at_zip_zero)
    show "length ?I0 = length ints2" "length ?I1 = length ints2"
      by (simp_all only: l1 l2)
    fix k assume "k < length ints2" "?I0 ! k = i"
    then show "ints2 ! k = 0"
      using row[of k] mask by (simp only: l2)
  qed
  have cz: "sum_at (zip ?I0 (zip ?I1 ints2)) j i = 0" if cc: "dirichlet_clear_columns op" for j
  proof (rule sum_at_zip_zero)
    show "length ?I0 = length ints2" "length ?I1 = length ints2"
      by (simp_all only: l1 l2)
    fix k assume "k < length ints2" "?I1 ! k = i"
    then show "ints2 ! k = 0"
      using col[OF cc, of k] mask by (simp only: l2)
  qed
  have "entry A i i = 1"
    unfolding e rz using assms(5) by simp
  moreover have "entry A i j = 0" if "j \<noteq> i" for j
    unfolding e rz using that by simp
  moreover have "entry A j i = 0" if "dirichlet_clear_columns op" "j \<noteq> i" for j
    unfolding e cz[OF that(1)] using that(2) by simp
  ultimately show ?thesis by blast
qed

text \<open>The interval with Dirichlet vertices at both ends, rows and columns cleared.\<close>

theorem dirichlet_rows_unit_witness:
  "DiffusionOperatorP1_assemble interval_operator interval_ints
     = Inr (Sparse 3 3 [(0, 1, 0), (1, 0, 0), (1, 1, 4), (1, 2, 0), (2, 1, 0), (0, 0, 1), (2, 2, 1)])
   \<and> has_dirichlet (op_boundary_info interval_operator)
   \<and> \<not> dirichlet_clear_diag interval_operator
   \<and> dirichlet_clear_columns interval_operator
   \<and> dirichlet_consistent (op_boundary_info interval_operator)
   \<and> 0 \<in> set (dirichlet_boundaries (op_boundary_info interval_operator))
   \<and> entry (Sparse 3 3 [(0, 1, 0), (1, 0, 0), (1, 1, 4), (1, 2, 0), (2, 1, 0), (0, 0, 1), (2, 2, 1)]) 0 0 = 1
   \<and> entry (Sparse 3 3 [(0, 1, 0), (1, 0, 0), (1, 1, 4), (1, 2, 0), (2, 1, 0), (0, 0, 1), (2, 2, 1)]) 0 1 = 0
   \<and> entry (Sparse 3 3 [(0, 1, 0), (1, 0, 0), (1, 1, 4), (1, 2, 0), (2, 1, 0), (0, 0, 1), (2, 2, 1)]) 0 2 = 0
   \<and> entry (Sparse 3 3 [(0, 1, 0), (1, 0, 0), (1, 1, 4), (1, 2, 0), (2, 1, 0), (0, 0, 1), (2, 2, 1)]) 1 0 = 0
   \<and> entry (Sparse 3 3 [(0, 1, 0), (1, 0, 0), (1, 1, 4), (1, 2, 0), (2, 1, 0), (0, 0, 1), (2, 2, 1)]) 2 0 = 0"
proof -
  have a: "DiffusionOperatorP1_assemble interval_operator interval_ints
     = Inr (Sparse 3 3 [(0, 1, 0), (1, 0, 0), (1, 1, 4), (1, 2, 0), (2, 1, 0), (0, 0, 1), (2, 2, 1)])"
    by code_simp
  have h: "has_dirichlet (op_boundary_info interval_operator)"
    and d: "\<not> dirichlet_clear_diag interval_operator"
    and cc: "dirichlet_clear_columns interval_operator"
    and i: "0 \<in> set (dirichlet_boundaries (op_boundary_info interval_operator))"
    by (simp_all add: interval_operator_def)
  have k: "dirichlet_consistent (op_boundary_info interval_operator)"
    by code_simp
  show ?thesis
    using dirichlet_rows_unit[OF a h d k i] a h d cc k i by simp
qed

end
